theory Spec2Isabelle
  imports Main "HOL-Library.Word" "HOL-Library.Sublist"
begin

unbundle bit_operations_syntax

section \<open>Python values, exceptions and the small library surface the two files use\<close>

text \<open>
  The repository has two entry points, \<^verbatim>\<open>app.py\<close> (function \<^verbatim>\<open>process\<close>, a Gradio
  callback) and \<^verbatim>\<open>handler.py\<close> (function \<^verbatim>\<open>handler\<close>, a RunPod job handler). Both
  are glue around collaborators they do not own: PIL, numpy, rembg, the cloned
  \<^verbatim>\<open>Inference\<close> class, the file system. The collaborators are parameters of the model
  (record \<open>env\<close> below); what the two files themselves do (the order of the calls, the
  arguments, the branches, the \<^verbatim>\<open>try\<close>/\<^verbatim>\<open>except\<close>, the global \<^verbatim>\<open>model\<close>) is
  translated statement by statement.

  The set-up both files run when they are imported (cloning the model repository,
  downloading the checkpoints, importing \<^verbatim>\<open>Inference\<close>) is not a part of a request;
  what it leaves behind, the global \<^verbatim>\<open>Inference\<close> and the files, is where a request
  starts.

  An exception is a value: its class name and the text \<^verbatim>\<open>str(e)\<close> gives. \<open>Exn\<close>
  is an instance of a class derived from \<^verbatim>\<open>Exception\<close>, which \<^verbatim>\<open>except Exception\<close>
  catches. \<open>BaseExn\<close> is an instance of any other class derived from
  \<^verbatim>\<open>BaseException\<close> (\<^verbatim>\<open>KeyboardInterrupt\<close>, \<^verbatim>\<open>SystemExit\<close>, \<^verbatim>\<open>GeneratorExit\<close>), which
  \<^verbatim>\<open>except Exception\<close> lets through. The constructor, not the name, says which of
  the two an exception is. Everything the two files raise themselves, and every
  exception of the Python operations modelled below, is an \<open>Exn\<close>; a collaborator
  can raise either.
\<close>

type_synonym byte = "8 word"

datatype exn =
    is_Exception: Exn (exn_class: string) (exn_str: string)
  | BaseExn (exn_class: string) (exn_str: string)

text \<open>
  The values a decoded JSON document is made of. A dict is an association list with
  one entry per key, looked up with \<open>map_of\<close>; \<open>PFloat m e\<close> is the float
  \<open>m * 2 ^ e\<close>.
\<close>

datatype pyval =
    PNone
  | PBool bool
  | PInt int
  | PFloat int int
  | PStr string
  | PList "pyval list"
  | PDict "(string \<times> pyval) list"

type_synonym pydict = "(string \<times> pyval) list"

definition quote :: "string \<Rightarrow> string" where
  "quote s = CHR 0x27 # s @ [CHR 0x27]"

fun py_type_name :: "pyval \<Rightarrow> string" where
  "py_type_name PNone = ''NoneType''"
| "py_type_name (PBool _) = ''bool''"
| "py_type_name (PInt _) = ''int''"
| "py_type_name (PFloat _ _) = ''float''"
| "py_type_name (PStr _) = ''str''"
| "py_type_name (PList _) = ''list''"
| "py_type_name (PDict _) = ''dict''"

text \<open>\<^verbatim>\<open>d[k]\<close> on a dict: \<^verbatim>\<open>KeyError\<close> when the key is missing.\<close>

definition py_getitem_dict :: "(string \<times> 'v) list \<Rightarrow> string \<Rightarrow> exn + 'v" where
  "py_getitem_dict d k =
     (case map_of d k of
        None \<Rightarrow> Inl (Exn ''KeyError'' (quote k))
      | Some v \<Rightarrow> Inr v)"

text \<open>
  \<^verbatim>\<open>k in v\<close> for a string \<open>k\<close>: key membership on a dict, element membership on a
  list, substring test on a string, \<^verbatim>\<open>TypeError\<close> on a value that is not a container.
\<close>

fun py_contains :: "string \<Rightarrow> pyval \<Rightarrow> exn + bool" where
  "py_contains k (PDict d) = Inr (k \<in> fst ` set d)"
| "py_contains k (PList xs) = Inr (PStr k \<in> set xs)"
| "py_contains k (PStr s) = Inr (sublist k s)"
| "py_contains k v =
     Inl (Exn ''TypeError''
       (''argument of type '' @ quote (py_type_name v) @ '' is not iterable''))"

text \<open>\<^verbatim>\<open>v[k]\<close> for a string \<open>k\<close>: only a dict can be indexed by a string.\<close>

fun py_getitem :: "pyval \<Rightarrow> string \<Rightarrow> exn + pyval" where
  "py_getitem (PDict d) k = py_getitem_dict d k"
| "py_getitem (PList xs) k =
     Inl (Exn ''TypeError'' ''list indices must be integers or slices, not str'')"
| "py_getitem (PStr s) k =
     Inl (Exn ''TypeError'' (''string indices must be integers, not '' @ quote ''str''))"
| "py_getitem v k =
     Inl (Exn ''TypeError'' (quote (py_type_name v) @ '' object is not subscriptable''))"

text \<open>\<^verbatim>\<open>t[-1]\<close> on a tuple.\<close>

definition py_last :: "'a list \<Rightarrow> exn + 'a" where
  "py_last xs =
     (if xs = [] then Inl (Exn ''IndexError'' ''tuple index out of range'')
      else Inr (last xs))"

text \<open>\<^verbatim>\<open>os.path.join\<close> (POSIX): an absolute component restarts the path.\<close>

definition join_step :: "string \<Rightarrow> string \<Rightarrow> string" where
  "join_step path b =
     (if take 1 b = ''/'' then b
      else if path = [] \<or> last path = CHR ''/'' then path @ b
      else path @ ''/'' @ b)"

definition os_path_join :: "string \<Rightarrow> string list \<Rightarrow> string" where
  "os_path_join a p = foldl join_step a p"

subsection \<open>base64\<close>

text \<open>
  \<^verbatim>\<open>base64.b64encode\<close> and \<^verbatim>\<open>base64.b64decode\<close> of the standard library: the alphabet
  of RFC 4648 with \<^verbatim>\<open>=\<close> padding. The encoder works on groups of three bytes. The
  decoder is the lenient one \<^verbatim>\<open>b64decode\<close> runs by default (\<^verbatim>\<open>validate=False\<close>):
  characters outside the alphabet are skipped, padding ends the input once a group
  of four is complete, and a group left incomplete is an error.
\<close>

definition table_b2a_base64 :: string where
  "table_b2a_base64 =
     ''ABCDEFGHIJKLMNOPQRSTUVWXYZabcdefghijklmnopqrstuvwxyz0123456789+/''"

definition BASE64_PAD :: char where
  "BASE64_PAD = CHR ''=''"

fun index_of :: "'a \<Rightarrow> 'a list \<Rightarrow> nat" where
  "index_of x [] = 0"
| "index_of x (y # ys) = (if x = y then 0 else Suc (index_of x ys))"

definition table_a2b_base64 :: "char \<Rightarrow> byte option" where
  "table_a2b_base64 c =
     (if c \<in> set table_b2a_base64 then Some (of_nat (index_of c table_b2a_base64))
      else None)"

definition b2a :: "byte \<Rightarrow> char" where
  "b2a v = table_b2a_base64 ! unat v"

fun b2a_base64 :: "byte list \<Rightarrow> string" where
  "b2a_base64 [] = []"
| "b2a_base64 [a] =
     [b2a (drop_bit 2 a), b2a (push_bit 4 (a AND 3)), BASE64_PAD, BASE64_PAD]"
| "b2a_base64 [a, b] =
     [b2a (drop_bit 2 a), b2a (push_bit 4 (a AND 3) OR drop_bit 4 b),
      b2a (push_bit 2 (b AND 15)), BASE64_PAD]"
| "b2a_base64 (a # b # c # bs) =
     [b2a (drop_bit 2 a), b2a (push_bit 4 (a AND 3) OR drop_bit 4 b),
      b2a (push_bit 2 (b AND 15) OR drop_bit 6 c), b2a (c AND 63)] @ b2a_base64 bs"

fun digit_char :: "nat \<Rightarrow> char" where
  "digit_char n = char_of (48 + n)"

fun show_nat :: "nat \<Rightarrow> string" where
  "show_nat n = (if n < 10 then [digit_char n] else show_nat (n div 10) @ [digit_char (n mod 10)])"

text \<open>
  The decoder's loop: \<open>quad_pos\<close> is the position inside the current group of four
  characters, \<open>leftchar\<close> the bits left over from the previous character, \<open>pads\<close> the
  padding characters seen in a row, \<open>out\<close> the bytes produced so far.
\<close>

fun a2b_loop :: "nat \<Rightarrow> byte \<Rightarrow> nat \<Rightarrow> byte list \<Rightarrow> string \<Rightarrow> exn + byte list" where
  "a2b_loop quad_pos leftchar pads out [] =
     (if quad_pos = 0 then Inr out
      else if quad_pos = 1 then
        Inl (Exn ''binascii.Error''
          (''Invalid base64-encoded string: number of data characters ('' @
           show_nat (length out div 3 * 4 + 1) @
           '') cannot be 1 more than a multiple of 4''))
      else Inl (Exn ''binascii.Error'' ''Incorrect padding''))"
| "a2b_loop quad_pos leftchar pads out (this_ch # rest) =
     (if this_ch = BASE64_PAD then
        (if 2 \<le> quad_pos \<and> 4 \<le> quad_pos + (pads + 1) then Inr out
         else a2b_loop quad_pos leftchar (if 2 \<le> quad_pos then pads + 1 else pads) out rest)
      else
        (case table_a2b_base64 this_ch of
           None \<Rightarrow> a2b_loop quad_pos leftchar pads out rest
         | Some v \<Rightarrow>
             (if quad_pos = 0 then a2b_loop 1 v 0 out rest
              else if quad_pos = 1 then
                a2b_loop 2 (v AND 15) 0 (out @ [push_bit 2 leftchar OR drop_bit 4 v]) rest
              else if quad_pos = 2 then
                a2b_loop 3 (v AND 3) 0 (out @ [push_bit 4 leftchar OR drop_bit 2 v]) rest
              else a2b_loop 0 0 0 (out @ [push_bit 6 leftchar OR v]) rest)))"

definition a2b_base64 :: "string \<Rightarrow> exn + byte list" where
  "a2b_base64 s = a2b_loop 0 0 0 [] s"

definition is_ascii :: "char \<Rightarrow> bool" where
  "is_ascii c = (of_char c < (128::nat))"

definition b64encode :: "byte list \<Rightarrow> string" where
  "b64encode bs = b2a_base64 bs"

text \<open>
  \<^verbatim>\<open>base64.b64decode(s)\<close>: a string must be ASCII, any other JSON value is a
  \<^verbatim>\<open>TypeError\<close>.
\<close>

fun b64decode :: "pyval \<Rightarrow> exn + byte list" where
  "b64decode (PStr s) =
     (if list_all is_ascii s then a2b_base64 s
      else Inl (Exn ''ValueError'' ''string argument should contain only ASCII characters''))"
| "b64decode v =
     Inl (Exn ''TypeError''
       (''argument should be a bytes-like object or ASCII string, not '' @
        quote (py_type_name v)))"

subsection \<open>numpy arrays\<close>

text \<open>An array is its shape and its elements in row-major order.\<close>

datatype 'a ndarray = NDArray (shape: "nat list") (data: "'a list")

text \<open>\<^verbatim>\<open>a.astype(np.uint8)\<close>: element-wise, integers wrap modulo 256.\<close>

definition astype_uint8 :: "int ndarray \<Rightarrow> byte ndarray" where
  "astype_uint8 a = NDArray (shape a) (map word_of_int (data a))"

text \<open>\<^verbatim>\<open>a > 0\<close>: element-wise comparison, a boolean array of the same shape.\<close>

definition gt0 :: "int ndarray \<Rightarrow> bool ndarray" where
  "gt0 a = NDArray (shape a) (map (\<lambda>v. 0 < v) (data a))"

section \<open>The process: its global state and its collaborators\<close>

text \<open>
  What a request can change: the module global \<^verbatim>\<open>model\<close>, the files, the supply of
  UUIDs, the console. \<open>trace\<close> is a ghost field: the calls made so far to
  \<^verbatim>\<open>load_model\<close> and to the collaborators that load or run the external model, in
  order, with their arguments. It is what "performs exactly one call" and "without
  invoking" are stated on. \<open>'m\<close> is the type of the loaded inference object, \<open>'img\<close>
  of a PIL image, \<open>'gs\<close> of the object whose \<^verbatim>\<open>save_ply\<close> writes the result.
\<close>

datatype ('m, 'img, 'gs) event =
    CallLoadModel
  | CallInference string bool
  | CallRembg 'img
  | CallModel 'm "byte ndarray" "bool ndarray" int
  | CallSavePly 'gs string

type_synonym files = "string \<rightharpoonup> byte list"

record ('m, 'img, 'gs) world =
  model :: "'m option"
  fs :: files
  uuid_ctr :: nat
  trace :: "('m, 'img, 'gs) event list"
  stdout :: "string list"
  stderr :: "exn list"

text \<open>
  The collaborators, each a function of its arguments; a call that can raise returns
  a sum. \<open>Inference\<close> is the module global of that name: the imported class, or
  \<^verbatim>\<open>None\<close> when both imports failed. \<open>call_model\<close> is
  \<^verbatim>\<open>current_model(image, mask, seed=...)\<close>, whose result is a dict; \<open>save_ply\<close> may
  change the files in any way. \<open>uuid4 n\<close> is the text of the \<open>n\<close>-th UUID drawn.
  \<open>gr_Image_preprocess\<close> is what the component \<^verbatim>\<open>gr.Image(type="pil")\<close> makes of the
  bytes of an uploaded file before \<^verbatim>\<open>process\<close> sees them; it is Gradio's own
  decoding, not \<^verbatim>\<open>Image.open\<close> of the bytes.
  Whatever state the collaborators keep for themselves is not in the model: no
  property below is about it.
\<close>

record ('m, 'img, 'gs) env =
  Inference :: "(string \<Rightarrow> bool \<Rightarrow> exn + 'm) option"
  os_path_abspath :: "string \<Rightarrow> string"
  uuid4 :: "nat \<Rightarrow> string"
  Image_open :: "byte list \<Rightarrow> exn + 'img"
  gr_Image_preprocess :: "byte list \<Rightarrow> exn + 'img"
  img_mode :: "'img \<Rightarrow> string"
  img_convert :: "'img \<Rightarrow> string \<Rightarrow> exn + 'img"
  img_split :: "'img \<Rightarrow> exn + 'img list"
  np_array :: "'img \<Rightarrow> exn + int ndarray"
  rembg_remove :: "'img \<Rightarrow> exn + 'img"
  call_model :: "'m \<Rightarrow> byte ndarray \<Rightarrow> bool ndarray \<Rightarrow> int \<Rightarrow> exn + (string \<times> 'gs) list"
  save_ply :: "'gs \<Rightarrow> string \<Rightarrow> files \<Rightarrow> (exn + unit) \<times> files"

subsection \<open>Statements: state and exceptions\<close>

text \<open>
  A statement takes the world and returns a value or an exception, and the new
  world. \<open>bindE\<close> is sequencing: an exception skips the rest.
\<close>

type_synonym ('w, 'a) stmt = "'w \<Rightarrow> (exn + 'a) \<times> 'w"

definition bindE :: "('w, 'a) stmt \<Rightarrow> ('a \<Rightarrow> ('w, 'b) stmt) \<Rightarrow> ('w, 'b) stmt" where
  "bindE m f w = (case m w of (Inl e, w') \<Rightarrow> (Inl e, w') | (Inr a, w') \<Rightarrow> f a w')"

definition returnE :: "'a \<Rightarrow> ('w, 'a) stmt" where
  "returnE a w = (Inr a, w)"

definition raiseE :: "exn \<Rightarrow> ('w, 'a) stmt" where
  "raiseE e w = (Inl e, w)"

definition lift :: "exn + 'a \<Rightarrow> ('w, 'a) stmt" where
  "lift r w = (r, w)"

definition py_print :: "string \<Rightarrow> (('m, 'img, 'gs) world, unit) stmt" where
  "py_print s w = (Inr (), w\<lparr>stdout := stdout w @ [s]\<rparr>)"

definition print_exc :: "exn \<Rightarrow> ('m, 'img, 'gs) world \<Rightarrow> ('m, 'img, 'gs) world" where
  "print_exc e w = w\<lparr>stderr := stderr w @ [e]\<rparr>"

definition emit :: "('m, 'img, 'gs) event \<Rightarrow> (('m, 'img, 'gs) world, unit) stmt" where
  "emit ev w = (Inr (), w\<lparr>trace := trace w @ [ev]\<rparr>)"

definition os_path_exists :: "string \<Rightarrow> (('m, 'img, 'gs) world, bool) stmt" where
  "os_path_exists p w = (Inr (fs w p \<noteq> None), w)"

text \<open>\<^verbatim>\<open>str(uuid.uuid4())\<close>: the next UUID of the supply.\<close>

definition new_run_id :: "('m, 'img, 'gs) env \<Rightarrow> (('m, 'img, 'gs) world, string) stmt" where
  "new_run_id env w = (Inr (uuid4 env (uuid_ctr w)), w\<lparr>uuid_ctr := Suc (uuid_ctr w)\<rparr>)"

text \<open>\<^verbatim>\<open>open(path, "rb").read()\<close>.\<close>

definition read_file :: "string \<Rightarrow> (('m, 'img, 'gs) world, byte list) stmt" where
  "read_file p w =
     (case fs w p of
        None \<Rightarrow>
          (Inl (Exn ''FileNotFoundError''
             (''[Errno 2] No such file or directory: '' @ quote p)), w)
      | Some content \<Rightarrow> (Inr content, w))"

definition os_remove :: "string \<Rightarrow> (('m, 'img, 'gs) world, unit) stmt" where
  "os_remove p w = (Inr (), w\<lparr>fs := (fs w)(p := None)\<rparr>)"

text \<open>The logged calls into the collaborators.\<close>

definition Inference_new ::
  "(string \<Rightarrow> bool \<Rightarrow> exn + 'm) \<Rightarrow> string \<Rightarrow> bool \<Rightarrow> (('m, 'img, 'gs) world, 'm) stmt" where
  "Inference_new cls config_file compile =
     bindE (emit (CallInference config_file compile)) (\<lambda>_. lift (cls config_file compile))"

definition rembg_remove_call ::
  "('m, 'img, 'gs) env \<Rightarrow> 'img \<Rightarrow> (('m, 'img, 'gs) world, 'img) stmt" where
  "rembg_remove_call env img =
     bindE (emit (CallRembg img)) (\<lambda>_. lift (rembg_remove env img))"

definition model_call ::
  "('m, 'img, 'gs) env \<Rightarrow> 'm \<Rightarrow> byte ndarray \<Rightarrow> bool ndarray \<Rightarrow> int \<Rightarrow>
     (('m, 'img, 'gs) world, (string \<times> 'gs) list) stmt" where
  "model_call env m image_np mask_np seed =
     bindE (emit (CallModel m image_np mask_np seed))
       (\<lambda>_. lift (call_model env m image_np mask_np seed))"

definition save_ply_call ::
  "('m, 'img, 'gs) env \<Rightarrow> 'gs \<Rightarrow> string \<Rightarrow> (('m, 'img, 'gs) world, unit) stmt" where
  "save_ply_call env gs path =
     bindE (emit (CallSavePly gs path))
       (\<lambda>_ w. case save_ply env gs path (fs w) of (r, fs') \<Rightarrow> (r, w\<lparr>fs := fs'\<rparr>))"

section \<open>The two files\<close>

definition REPO_DIR :: string where
  "REPO_DIR = ''sam-3d-objects''"

definition CHECKPOINT_DIR :: string where
  "CHECKPOINT_DIR = ''checkpoints/hf''"

subsection \<open>\<^verbatim>\<open>load_model\<close> (the same text in both files)\<close>

definition load_model :: "('m, 'img, 'gs) env \<Rightarrow> (('m, 'img, 'gs) world, 'm) stmt" where
  "load_model env =
     bindE (emit CallLoadModel) (\<lambda>_ w.
       case model w of
         Some m \<Rightarrow> (Inr m, w)
       | None \<Rightarrow>
           (case Inference env of
              None \<Rightarrow> (Inl (Exn ''ImportError'' ''Could not import SAM3D Inference module.''), w)
            | Some cls \<Rightarrow>
                (bindE (py_print ''Loading Model...'') (\<lambda>_.
                 let config_path =
                       os_path_abspath env (os_path_join REPO_DIR [CHECKPOINT_DIR, ''pipeline.yaml''])
                 in
                 bindE (py_print (''Using config: '' @ config_path)) (\<lambda>_.
                 bindE (os_path_exists config_path) (\<lambda>found.
                 if \<not> found then
                   raiseE (Exn ''FileNotFoundError'' (''Config file not found at '' @ config_path))
                 else
                 bindE (Inference_new cls config_path False) (\<lambda>m.
                 bindE (\<lambda>w. (Inr (), w\<lparr>model := Some m\<rparr>)) (\<lambda>_.
                 bindE (py_print ''Model loaded.'') (\<lambda>_.
                 returnE m))))))) w))"

subsection \<open>\<^verbatim>\<open>app.py\<close>: \<^verbatim>\<open>process\<close>\<close>

text \<open>The body of the \<^verbatim>\<open>try\<close> block, for an input image that is not \<^verbatim>\<open>None\<close>.\<close>

definition process_try ::
  "('m, 'img, 'gs) env \<Rightarrow> 'img \<Rightarrow> (('m, 'img, 'gs) world, string \<times> string) stmt" where
  "process_try env input_image =
     bindE (load_model env) (\<lambda>current_model.
     bindE (new_run_id env) (\<lambda>run_id.
     bindE (lift (if img_mode env input_image \<noteq> ''RGB''
                  then img_convert env input_image ''RGB''
                  else Inr input_image)) (\<lambda>input_image_rgb.
     bindE (lift (np_array env input_image_rgb)) (\<lambda>arr.
     let image_np = astype_uint8 arr in
     bindE (py_print ''removing background...'') (\<lambda>_.
     bindE (rembg_remove_call env input_image_rgb) (\<lambda>rembg_output.
     bindE (lift (img_split env rembg_output)) (\<lambda>bands.
     bindE (lift (py_last bands)) (\<lambda>mask_pil.
     bindE (lift (np_array env mask_pil)) (\<lambda>mask_arr.
     let mask_np = gt0 mask_arr in
     bindE (py_print ''Running Inference...'') (\<lambda>_.
     bindE (model_call env current_model image_np mask_np 42) (\<lambda>output.
     let output_ply_name = ''output_'' @ run_id @ ''.ply'';
         output_ply_path = os_path_abspath env output_ply_name in
     bindE (lift (py_getitem_dict output ''gs'')) (\<lambda>gs.
     bindE (save_ply_call env gs output_ply_path) (\<lambda>_.
     bindE (py_print (''Saved to '' @ output_ply_path)) (\<lambda>_.
     returnE (output_ply_path, output_ply_path)))))))))))))))"

text \<open>
  \<^verbatim>\<open>process\<close>: \<^verbatim>\<open>None\<close> in, \<^verbatim>\<open>(None, None)\<close> out; otherwise the \<^verbatim>\<open>try\<close> block, and
  an exception of it that \<^verbatim>\<open>except Exception\<close> catches printed and raised again as
  \<^verbatim>\<open>gr.Error\<close>; any other exception leaves \<^verbatim>\<open>process\<close> as it is. The decorator
  \<^verbatim>\<open>@spaces.GPU\<close>, which decides where the function runs, is left out.
\<close>

definition process ::
  "('m, 'img, 'gs) env \<Rightarrow> 'img option \<Rightarrow>
     (('m, 'img, 'gs) world, string option \<times> string option) stmt" where
  "process env input_image w =
     (case input_image of
        None \<Rightarrow> (Inr (None, None), w)
      | Some img \<Rightarrow>
          (case process_try env img w of
             (Inr (preview, download), w') \<Rightarrow> (Inr (Some preview, Some download), w')
           | (Inl e, w') \<Rightarrow>
               if is_Exception e then
                 (Inl (Exn ''gradio.Error'' (''Error processing image: '' @ exn_str e)),
                  print_exc e w')
               else (Inl e, w')))"

text \<open>
  \<^verbatim>\<open>btn.click(process, inputs=input_img, outputs=[output_3d, output_file])\<close>: the two
  returned values go to the two output components, in order.
\<close>

datatype component = Output_3d | Output_file

definition btn_click ::
  "('m, 'img, 'gs) env \<Rightarrow> 'img option \<Rightarrow>
     (('m, 'img, 'gs) world, (component \<times> string option) list) stmt" where
  "btn_click env input_img =
     bindE (process env input_img) (\<lambda>(a, b).
     returnE (zip [Output_3d, Output_file] [a, b]))"

text \<open>
  A click after a file was uploaded to \<^verbatim>\<open>input_img = gr.Image(type="pil")\<close>: the
  component turns the bytes into the image \<^verbatim>\<open>process\<close> is called on.
\<close>

definition upload_and_click ::
  "('m, 'img, 'gs) env \<Rightarrow> byte list \<Rightarrow>
     (('m, 'img, 'gs) world, (component \<times> string option) list) stmt" where
  "upload_and_click env upload =
     bindE (lift (gr_Image_preprocess env upload)) (\<lambda>input_image.
     btn_click env (Some input_image))"

subsection \<open>\<^verbatim>\<open>handler.py\<close>: \<^verbatim>\<open>handler\<close>\<close>

definition handler_try ::
  "('m, 'img, 'gs) env \<Rightarrow> pyval \<Rightarrow> (('m, 'img, 'gs) world, pydict) stmt" where
  "handler_try env job_input =
     bindE (load_model env) (\<lambda>current_model.
     bindE (lift (py_getitem job_input ''image'')) (\<lambda>image_b64.
     bindE (lift (b64decode image_b64)) (\<lambda>image_data.
     bindE (lift (Image_open env image_data)) (\<lambda>input_image.
     bindE (new_run_id env) (\<lambda>run_id.
     bindE (lift (if img_mode env input_image \<noteq> ''RGB''
                  then img_convert env input_image ''RGB''
                  else Inr input_image)) (\<lambda>input_image_rgb.
     bindE (lift (np_array env input_image_rgb)) (\<lambda>arr.
     let image_np = astype_uint8 arr in
     bindE (py_print ''removing background...'') (\<lambda>_.
     bindE (rembg_remove_call env input_image_rgb) (\<lambda>rembg_output.
     bindE (lift (img_split env rembg_output)) (\<lambda>bands.
     bindE (lift (py_last bands)) (\<lambda>mask_pil.
     bindE (lift (np_array env mask_pil)) (\<lambda>mask_arr.
     let mask_np = gt0 mask_arr in
     bindE (py_print ''Running Inference...'') (\<lambda>_.
     bindE (model_call env current_model image_np mask_np 42) (\<lambda>output.
     let output_ply_name = ''output_'' @ run_id @ ''.ply'';
         output_ply_path = os_path_abspath env output_ply_name in
     bindE (lift (py_getitem_dict output ''gs'')) (\<lambda>gs.
     bindE (save_ply_call env gs output_ply_path) (\<lambda>_.
     bindE (py_print (''Saved to '' @ output_ply_path)) (\<lambda>_.
     bindE (read_file output_ply_path) (\<lambda>ply_content.
     let ply_base64 = b64encode ply_content in
     bindE (os_path_exists output_ply_path) (\<lambda>found.
     bindE (if found then os_remove output_ply_path else returnE ()) (\<lambda>_.
     returnE [(''ply'', PStr ply_base64), (''filename'', PStr output_ply_name)]
     ))))))))))))))))))))"

text \<open>
  \<^verbatim>\<open>handler\<close>: \<^verbatim>\<open>job['input']\<close> and the test for the key \<^verbatim>\<open>'image'\<close> come before the
  \<^verbatim>\<open>try\<close>; an exception of the \<^verbatim>\<open>try\<close> block that \<^verbatim>\<open>except Exception\<close> catches is
  printed and returned as \<^verbatim>\<open>{"error": str(e)}\<close>; any other exception leaves
  \<^verbatim>\<open>handler\<close> as it is.
\<close>

definition handler :: "('m, 'img, 'gs) env \<Rightarrow> pydict \<Rightarrow> (('m, 'img, 'gs) world, pydict) stmt" where
  "handler env job =
     bindE (lift (py_getitem_dict job ''input'')) (\<lambda>job_input.
     bindE (lift (py_contains ''image'' job_input)) (\<lambda>has_image.
     if \<not> has_image then
       returnE [(''error'',
         PStr ''No image provided in input. Expecting json: {'image': 'base64str'}'')]
     else
       (\<lambda>w. case handler_try env job_input w of
               (Inr out, w') \<Rightarrow> (Inr out, w')
             | (Inl e, w') \<Rightarrow>
                 if is_Exception e then (Inr [(''error'', PStr (exn_str e))], print_exc e w')
                 else (Inl e, w'))))"

section \<open>Notions the properties are stated with\<close>

text \<open>The calls a run added to the trace, the run leading from world \<open>w\<close> to \<open>w'\<close>.\<close>

definition calls_between ::
  "('m, 'img, 'gs) world \<Rightarrow> ('m, 'img, 'gs) world \<Rightarrow> ('m, 'img, 'gs) event list" where
  "calls_between w w' = drop (length (trace w)) (trace w')"

fun is_CallLoadModel :: "('m, 'img, 'gs) event \<Rightarrow> bool" where
  "is_CallLoadModel CallLoadModel = True"
| "is_CallLoadModel _ = False"

fun is_CallInference :: "('m, 'img, 'gs) event \<Rightarrow> bool" where
  "is_CallInference (CallInference _ _) = True"
| "is_CallInference _ = False"

fun is_CallRembg :: "('m, 'img, 'gs) event \<Rightarrow> bool" where
  "is_CallRembg (CallRembg _) = True"
| "is_CallRembg _ = False"

fun is_CallModel :: "('m, 'img, 'gs) event \<Rightarrow> bool" where
  "is_CallModel (CallModel _ _ _ _) = True"
| "is_CallModel _ = False"

fun is_CallSavePly :: "('m, 'img, 'gs) event \<Rightarrow> bool" where
  "is_CallSavePly (CallSavePly _ _) = True"
| "is_CallSavePly _ = False"

text \<open>The two shapes of a job output.\<close>

fun is_ply_output :: "pydict \<Rightarrow> bool" where
  "is_ply_output [(k1, PStr ply), (k2, PStr filename)] = (k1 = ''ply'' \<and> k2 = ''filename'')"
| "is_ply_output _ = False"

fun is_error_output :: "pydict \<Rightarrow> bool" where
  "is_error_output [(k, PStr msg)] = (k = ''error'')"
| "is_error_output _ = False"

text \<open>The values \<^verbatim>\<open>'image' in v\<close> is defined on.\<close>

fun is_container :: "pyval \<Rightarrow> bool" where
  "is_container (PDict _) = True"
| "is_container (PList _) = True"
| "is_container (PStr _) = True"
| "is_container _ = False"

text \<open>The image both entry points work on: the input itself when its mode is RGB.\<close>

definition rgb_version :: "('m, 'img, 'gs) env \<Rightarrow> 'img \<Rightarrow> exn + 'img" where
  "rgb_version env img =
     (if img_mode env img \<noteq> ''RGB'' then img_convert env img ''RGB'' else Inr img)"

text \<open>
  The statements the two \<^verbatim>\<open>try\<close> blocks have in common, from the run id to the
  message that the file is saved (\<^verbatim>\<open>app.py\<close> lines 102 to 130, \<^verbatim>\<open>handler.py\<close> lines
  103 to 127), as one statement returning the file's name and path. The two blocks
  above are written out from their own files; that each of them runs these
  statements is a lemma.
\<close>

definition pipeline ::
  "('m, 'img, 'gs) env \<Rightarrow> 'm \<Rightarrow> 'img \<Rightarrow> (('m, 'img, 'gs) world, string \<times> string) stmt" where
  "pipeline env current_model input_image =
     bindE (new_run_id env) (\<lambda>run_id.
     bindE (lift (rgb_version env input_image)) (\<lambda>input_image_rgb.
     bindE (lift (np_array env input_image_rgb)) (\<lambda>arr.
     bindE (py_print ''removing background...'') (\<lambda>_.
     bindE (rembg_remove_call env input_image_rgb) (\<lambda>rembg_output.
     bindE (lift (img_split env rembg_output)) (\<lambda>bands.
     bindE (lift (py_last bands)) (\<lambda>mask_pil.
     bindE (lift (np_array env mask_pil)) (\<lambda>mask_arr.
     bindE (py_print ''Running Inference...'') (\<lambda>_.
     bindE (model_call env current_model (astype_uint8 arr) (gt0 mask_arr) 42) (\<lambda>output.
     bindE (lift (py_getitem_dict output ''gs'')) (\<lambda>gs.
     bindE (save_ply_call env gs
              (os_path_abspath env (''output_'' @ run_id @ ''.ply''))) (\<lambda>_.
     bindE (py_print (''Saved to '' @
              os_path_abspath env (''output_'' @ run_id @ ''.ply''))) (\<lambda>_.
     returnE (''output_'' @ run_id @ ''.ply'',
              os_path_abspath env (''output_'' @ run_id @ ''.ply'')))))))))))))))"

text \<open>The name and the path of the output file of a run that starts in world \<open>w\<close>.\<close>

definition output_name :: "('m, 'img, 'gs) env \<Rightarrow> ('m, 'img, 'gs) world \<Rightarrow> string" where
  "output_name env w = ''output_'' @ uuid4 env (uuid_ctr w) @ ''.ply''"

definition output_path :: "('m, 'img, 'gs) env \<Rightarrow> ('m, 'img, 'gs) world \<Rightarrow> string" where
  "output_path env w = os_path_abspath env (output_name env w)"

text \<open>The path of the configuration file \<^verbatim>\<open>load_model\<close> hands to \<^verbatim>\<open>Inference\<close>.\<close>

definition config_path :: "('m, 'img, 'gs) env \<Rightarrow> string" where
  "config_path env =
     os_path_abspath env (os_path_join REPO_DIR [CHECKPOINT_DIR, ''pipeline.yaml''])"

text \<open>
  The calls the shared statements can have made when they stop, for the model object
  \<open>m\<close>, the input image and the output path: none, or the remover on the RGB
  version, then the model on the two arrays with seed 42, then \<^verbatim>\<open>save_ply\<close>; each
  later call only after the earlier ones returned.
\<close>

definition run_calls ::
  "('m, 'img, 'gs) env \<Rightarrow> 'm \<Rightarrow> 'img \<Rightarrow> string \<Rightarrow> ('m, 'img, 'gs) event list \<Rightarrow> bool" where
  "run_calls env m img path evs =
     (evs = [] \<or>
      (\<exists>rgb. rgb_version env img = Inr rgb \<and>
         (evs = [CallRembg rgb] \<or>
          (\<exists>arr rout bands alpha marr.
             np_array env rgb = Inr arr \<and> rembg_remove env rgb = Inr rout \<and>
             img_split env rout = Inr bands \<and> py_last bands = Inr alpha \<and>
             np_array env alpha = Inr marr \<and>
             (evs = [CallRembg rgb, CallModel m (astype_uint8 arr) (gt0 marr) 42] \<or>
              (\<exists>output gs.
                 call_model env m (astype_uint8 arr) (gt0 marr) 42 = Inr output \<and>
                 py_getitem_dict output ''gs'' = Inr gs \<and>
                 evs = [CallRembg rgb, CallModel m (astype_uint8 arr) (gt0 marr) 42,
                        CallSavePly gs path]))))))"

text \<open>
  Every collaborator of the shared statements returns, for the model object \<open>m\<close>,
  the input image, the output path and the files before \<^verbatim>\<open>save_ply\<close>: the RGB version
  \<open>rgb\<close>, its \<^verbatim>\<open>uint8\<close> array \<open>a\<close>, the mask \<open>k\<close> from the remover's output, the
  object \<open>gs\<close> of the model's result, and the files \<^verbatim>\<open>save_ply\<close> leaves.
\<close>

definition collaborators_return ::
  "('m, 'img, 'gs) env \<Rightarrow> 'm \<Rightarrow> 'img \<Rightarrow> string \<Rightarrow> files \<Rightarrow>
     'img \<Rightarrow> byte ndarray \<Rightarrow> bool ndarray \<Rightarrow> 'gs \<Rightarrow> files \<Rightarrow> bool" where
  "collaborators_return env m img path files rgb a k gs files' =
     (\<exists>arr rout bands alpha marr res.
        rgb_version env img = Inr rgb \<and> np_array env rgb = Inr arr \<and>
        a = astype_uint8 arr \<and> rembg_remove env rgb = Inr rout \<and>
        img_split env rout = Inr bands \<and> py_last bands = Inr alpha \<and>
        np_array env alpha = Inr marr \<and> k = gt0 marr \<and>
        call_model env m a k 42 = Inr res \<and> py_getitem_dict res ''gs'' = Inr gs \<and>
        save_ply env gs path files = (Inr (), files'))"

text \<open>
  \<^verbatim>\<open>load_model\<close> can return the model object \<open>m\<close>: the global holds it, or the global is
  \<^verbatim>\<open>None\<close>, \<^verbatim>\<open>Inference\<close> was imported, the configuration file exists and the
  constructor returns \<open>m\<close>.
\<close>

definition model_available ::
  "('m, 'img, 'gs) env \<Rightarrow> ('m, 'img, 'gs) world \<Rightarrow> 'm \<Rightarrow> bool" where
  "model_available env w m =
     (model w = Some m \<or>
      (model w = None \<and> fs w (config_path env) \<noteq> None \<and>
       (\<exists>cls. Inference env = Some cls \<and> cls (config_path env) False = Inr m)))"

text \<open>The image a job carries: the value under \<^verbatim>\<open>'image'\<close>, decoded and opened.\<close>

definition job_image :: "('m, 'img, 'gs) env \<Rightarrow> pyval \<Rightarrow> exn + 'img" where
  "job_image env job_input =
     (case py_getitem job_input ''image'' of
        Inl e \<Rightarrow> Inl e
      | Inr image_b64 \<Rightarrow>
          (case b64decode image_b64 of
             Inl e \<Rightarrow> Inl e
           | Inr image_data \<Rightarrow> Image_open env image_data))"

text \<open>A boolean array that is the element-wise test \<open>0 < x\<close> of an integer array.\<close>

definition elementwise_gt0 :: "int ndarray \<Rightarrow> bool ndarray \<Rightarrow> bool" where
  "elementwise_gt0 a k =
     (shape k = shape a \<and> length (data k) = length (data a) \<and>
      (\<forall>i < length (data a). data k ! i = (0 < data a ! i)))"

text \<open>
  \<open>k\<close> is the foreground mask of \<open>img\<close>: the remover ran on the RGB version of
  \<open>img\<close>, the last band of its output (the alpha channel of an RGBA image) was made
  an array, and \<open>k\<close> is that array's element-wise test \<open>0 < x\<close>.
\<close>

definition alpha_mask :: "('m, 'img, 'gs) env \<Rightarrow> 'img \<Rightarrow> bool ndarray \<Rightarrow> bool" where
  "alpha_mask env img k =
     (\<exists>rgb rout bands alpha marr.
        rgb_version env img = Inr rgb \<and> rembg_remove env rgb = Inr rout \<and>
        img_split env rout = Inr bands \<and> py_last bands = Inr alpha \<and>
        np_array env alpha = Inr marr \<and> elementwise_gt0 marr k)"

text \<open>\<open>a\<close> is the \<^verbatim>\<open>uint8\<close> array of the RGB version of \<open>img\<close>, an image of mode RGB.\<close>

definition rgb_image_array :: "('m, 'img, 'gs) env \<Rightarrow> 'img \<Rightarrow> byte ndarray \<Rightarrow> bool" where
  "rgb_image_array env img a =
     (\<exists>rgb arr.
        rgb_version env img = Inr rgb \<and> img_mode env rgb = ''RGB'' \<and>
        np_array env rgb = Inr arr \<and> a = astype_uint8 arr)"

text \<open>What PIL promises of \<^verbatim>\<open>convert("RGB")\<close>: the image it returns has mode RGB.\<close>

definition convert_gives_rgb :: "('m, 'img, 'gs) env \<Rightarrow> bool" where
  "convert_gives_rgb env =
     (\<forall>i r. img_convert env i ''RGB'' = Inr r \<longrightarrow> img_mode env r = ''RGB'')"

text \<open>
  The calls of a request end with one call of the model, with seed 42, and one
  \<^verbatim>\<open>save_ply\<close> on the \<^verbatim>\<open>gs\<close> entry of what the model returned; no other call of
  either kind comes before.
\<close>

definition ends_with_call_and_save ::
  "('m, 'img, 'gs) env \<Rightarrow> string \<Rightarrow> ('m, 'img, 'gs) event list \<Rightarrow> bool" where
  "ends_with_call_and_save env path evs =
     (\<exists>pre m a k output gs.
        evs = pre @ [CallModel m a k 42, CallSavePly gs path] \<and>
        filter is_CallModel pre = [] \<and> filter is_CallSavePly pre = [] \<and>
        call_model env m a k 42 = Inr output \<and> py_getitem_dict output ''gs'' = Inr gs)"

text \<open>\<^verbatim>\<open>load_model\<close> called \<open>n\<close> times in a row: the results, and the world at the end.\<close>

fun load_model_times ::
  "('m, 'img, 'gs) env \<Rightarrow> nat \<Rightarrow> ('m, 'img, 'gs) world \<Rightarrow> (exn + 'm) list \<times> ('m, 'img, 'gs) world" where
  "load_model_times env 0 w = ([], w)"
| "load_model_times env (Suc n) w =
     (case load_model env w of
        (r, w1) \<Rightarrow> (case load_model_times env n w1 of (rs, w2) \<Rightarrow> (r # rs, w2)))"

text \<open>A value below 64: one character's worth of bits.\<close>

definition sextet :: "byte \<Rightarrow> bool" where
  "sextet v = (v AND 63 = v)"

section \<open>A small concrete environment\<close>

text \<open>
  Stand-ins for the collaborators, on which the functions above can be run: an image
  is its mode and its bands, the remover adds an alpha band that is 255 where the
  first band exceeds 50, the model object is a number, and the object to save is the
  bytes \<^verbatim>\<open>save_ply\<close> writes. The image component of the UI applies the orientation
  the file asks for, which \<^verbatim>\<open>Image.open\<close> does not; its stand-in turns the pixels
  around and hands over an RGB image.
\<close>

type_synonym test_img = "string \<times> int list list"

definition test_env :: "(nat, test_img, byte list) env" where
  "test_env = \<lparr>
     Inference = Some (\<lambda>config_file compile. Inr 7),
     os_path_abspath = (\<lambda>p. ''/workspace/'' @ p),
     uuid4 = (\<lambda>n. ''run-'' @ show_nat n),
     Image_open = (\<lambda>bs.
       if bs = [] then Inl (Exn ''PIL.UnidentifiedImageError'' ''cannot identify image file'')
       else Inr (''L'', [map uint bs])),
     gr_Image_preprocess = (\<lambda>bs.
       if bs = [] then Inl (Exn ''gradio.Error'' ''cannot identify image file'')
       else Inr (''RGB'', [rev (map uint bs), rev (map uint bs), rev (map uint bs)])),
     img_mode = fst,
     img_convert = (\<lambda>img m.
       case snd img of
         [] \<Rightarrow> Inl (Exn ''ValueError'' ''conversion not supported'')
       | b # _ \<Rightarrow> Inr (m, [b, b, b])),
     img_split = (\<lambda>img. Inr (map (\<lambda>b. (''L'', [b])) (snd img))),
     np_array = (\<lambda>img.
       Inr (NDArray [length (snd img), (case snd img of [] \<Rightarrow> 0 | b # _ \<Rightarrow> length b)]
              (concat (snd img)))),
     rembg_remove = (\<lambda>img.
       case snd img of
         [] \<Rightarrow> Inl (Exn ''ValueError'' ''empty image'')
       | b # _ \<Rightarrow> Inr (''RGBA'', snd img @ [map (\<lambda>v. if 50 < v then 255 else 0) b])),
     call_model = (\<lambda>m image_np mask_np seed. Inr [(''gs'', data image_np)]),
     save_ply = (\<lambda>gs path files. (Inr (), files(path \<mapsto> gs)))
   \<rparr>"

definition test_world :: "(nat, test_img, byte list) world" where
  "test_world = \<lparr>
     model = None,
     fs = [''/workspace/sam-3d-objects/checkpoints/hf/pipeline.yaml'' \<mapsto> []],
     uuid_ctr = 0,
     trace = [],
     stdout = [],
     stderr = []
   \<rparr>"

definition test_image :: test_img where
  "test_image = (''L'', [[77]])"

definition test_job :: pydict where
  "test_job = [(''id'', PStr ''job-1''), (''input'', PDict [(''image'', PStr ''TQ=='')])]"

definition test_job_number :: pydict where
  "test_job_number = [(''id'', PStr ''job-2''), (''input'', PInt 5)]"

definition test_job_bool :: pydict where
  "test_job_bool = [(''id'', PStr ''job-3''), (''input'', PBool True)]"

definition test_job_no_image :: pydict where
  "test_job_no_image = [(''id'', PStr ''job-4''), (''input'', PDict [(''prompt'', PStr ''a chair'')])]"

definition test_job_bad_base64 :: pydict where
  "test_job_bad_base64 = [(''id'', PStr ''job-5''), (''input'', PDict [(''image'', PStr ''T'')])]"

definition test_image_no_bands :: test_img where
  "test_image_no_bands = (''P'', [])"

text \<open>The same environment with a model call that is interrupted.\<close>

definition test_env_interrupt :: "(nat, test_img, byte list) env" where
  "test_env_interrupt =
     test_env\<lparr>call_model :=
       (\<lambda>m image_np mask_np seed. Inl (BaseExn ''KeyboardInterrupt'' ''''))\<rparr>"

text \<open>An upload of two pixels, and the job that carries the same two bytes.\<close>

definition test_upload :: "byte list" where
  "test_upload = [77, 200]"

definition test_job_two_pixels :: pydict where
  "test_job_two_pixels =
     [(''id'', PStr ''job-6''), (''input'', PDict [(''image'', PStr ''Tcg='')])]"

section \<open>Lemmas\<close>

subsection \<open>base64\<close>

lemma mask_63: "(63::byte) = mask 6" by (simp add: mask_eq_exp_minus_1)
lemma mask_15: "(15::byte) = mask 4" by (simp add: mask_eq_exp_minus_1)
lemma mask_3: "(3::byte) = mask 2" by (simp add: mask_eq_exp_minus_1)

lemma byte_eqI:
  assumes "\<And>n. n \<in> {0, 1, 2, 3, 4, 5, 6, 7} \<Longrightarrow> bit a n = bit b n"
  shows "a = (b::byte)"
proof (rule bit_word_eqI)
  fix n assume "n < LENGTH(8)"
  then have "n \<in> {0, 1, 2, 3, 4, 5, 6, 7}" by auto
  then show "bit a n = bit b n" by (rule assms)
qed

lemma bit_byte: "bit (a::byte) n \<Longrightarrow> n < 8"
  using bit_imp_le_length [of a n] by simp

lemmas byte_bits = bit_simps numeral_2_eq_2 [symmetric] numeral_3_eq_3 [symmetric]

lemma sextet_1: "sextet (drop_bit 2 a)"
  unfolding sextet_def mask_63 by (rule byte_eqI) (auto simp add: byte_bits dest: bit_byte)

lemma sextet_2: "sextet (push_bit 4 (a AND 3) OR drop_bit 4 b)"
  unfolding sextet_def mask_63 mask_3 by (rule byte_eqI) (auto simp add: byte_bits dest: bit_byte)

lemma sextet_2_pad: "sextet (push_bit 4 (a AND 3))"
  unfolding sextet_def mask_63 mask_3 by (rule byte_eqI) (auto simp add: byte_bits dest: bit_byte)

lemma sextet_3: "sextet (push_bit 2 (b AND 15) OR drop_bit 6 c)"
  unfolding sextet_def mask_63 mask_15 by (rule byte_eqI) (auto simp add: byte_bits dest: bit_byte)

lemma sextet_3_pad: "sextet (push_bit 2 (b AND 15))"
  unfolding sextet_def mask_63 mask_15 by (rule byte_eqI) (auto simp add: byte_bits dest: bit_byte)

lemma sextet_4: "sextet (c AND 63)"
  unfolding sextet_def mask_63 by (rule byte_eqI) (auto simp add: byte_bits dest: bit_byte)

lemma join_1:
  "push_bit 2 (drop_bit 2 a) OR drop_bit 4 (push_bit 4 (a AND 3) OR drop_bit 4 b) = (a::byte)"
  unfolding mask_3 by (rule byte_eqI) (auto simp add: byte_bits)

lemma join_1_pad: "push_bit 2 (drop_bit 2 a) OR drop_bit 4 (push_bit 4 (a AND 3)) = (a::byte)"
  unfolding mask_3 by (rule byte_eqI) (auto simp add: byte_bits)

lemma join_2:
  "push_bit 4 ((push_bit 4 (a AND 3) OR drop_bit 4 b) AND 15) OR
   drop_bit 2 (push_bit 2 (b AND 15) OR drop_bit 6 c) = (b::byte)"
  unfolding mask_3 mask_15 by (rule byte_eqI) (auto simp add: byte_bits)

lemma join_2_pad:
  "push_bit 4 ((push_bit 4 (a AND 3) OR drop_bit 4 b) AND 15) OR
   drop_bit 2 (push_bit 2 (b AND 15)) = (b::byte)"
  unfolding mask_3 mask_15 by (rule byte_eqI) (auto simp add: byte_bits)

lemma join_3:
  "push_bit 6 ((push_bit 2 (b AND 15) OR drop_bit 6 c) AND 3) OR (c AND 63) = (c::byte)"
  unfolding mask_3 mask_15 mask_63 by (rule byte_eqI) (auto simp add: byte_bits)

lemmas sextets = sextet_1 sextet_2 sextet_2_pad sextet_3 sextet_3_pad sextet_4
lemmas sextets_nf = sextets [simplified]
lemmas joins_nf = join_1 [simplified] join_1_pad [simplified] join_2 [simplified]
  join_2_pad [simplified] join_3 [simplified]

lemma sextet_bound:
  assumes "sextet v"
  shows "unat v < 64"
proof -
  have "v AND 63 \<le> 63" by (rule word_and_le1)
  with assms have "v \<le> 63" by (simp add: sextet_def)
  then have "unat v \<le> unat (63::byte)" by (simp add: word_le_nat_alt)
  then show ?thesis by simp
qed

lemma index_of_nth: "distinct xs \<Longrightarrow> i < length xs \<Longrightarrow> index_of (xs ! i) xs = i"
proof (induction xs arbitrary: i)
  case Nil
  then show ?case by simp
next
  case (Cons x xs)
  then show ?case by (cases i) auto
qed

lemma table_distinct: "distinct table_b2a_base64"
  by (simp add: table_b2a_base64_def)

lemma table_length: "length table_b2a_base64 = 64"
  by (simp add: table_b2a_base64_def)

lemma b2a_in_table: "sextet v \<Longrightarrow> b2a v \<in> set table_b2a_base64"
  by (simp add: b2a_def table_length sextet_bound)

lemma pad_not_in_table: "BASE64_PAD \<notin> set table_b2a_base64"
  by (simp add: table_b2a_base64_def BASE64_PAD_def)

lemma b2a_not_pad: "sextet v \<Longrightarrow> b2a v \<noteq> BASE64_PAD"
  using b2a_in_table pad_not_in_table by metis

lemma a2b_b2a: "sextet v \<Longrightarrow> table_a2b_base64 (b2a v) = Some v"
proof -
  assume s: "sextet v"
  then have lt: "unat v < length table_b2a_base64"
    by (simp add: table_length sextet_bound)
  have "index_of (b2a v) table_b2a_base64 = unat v"
    unfolding b2a_def by (rule index_of_nth [OF table_distinct lt])
  then show ?thesis using b2a_in_table [OF s] by (simp add: table_a2b_base64_def)
qed

lemma a2b_loop_b2a_base64: "a2b_loop 0 l p out (b2a_base64 bs) = Inr (out @ bs)"
proof (induction bs arbitrary: l p out rule: b2a_base64.induct)
  case 1
  show ?case by simp
next
  case (2 a)
  show ?case by (simp add: sextets_nf a2b_b2a b2a_not_pad joins_nf)
next
  case (3 a b)
  show ?case by (simp add: sextets_nf a2b_b2a b2a_not_pad joins_nf)
next
  case (4 a b c bs)
  show ?case by (simp add: sextets_nf a2b_b2a b2a_not_pad joins_nf 4)
qed

lemma table_ascii: "list_all is_ascii table_b2a_base64"
  by (simp add: table_b2a_base64_def is_ascii_def)

lemma b2a_ascii: "sextet v \<Longrightarrow> is_ascii (b2a v)"
  using b2a_in_table [of v] table_ascii by (simp add: list_all_iff)

lemma b2a_base64_ascii: "list_all is_ascii (b2a_base64 bs)"
  by (induction bs rule: b2a_base64.induct)
     (simp_all add: b2a_ascii sextets_nf, simp_all add: is_ascii_def BASE64_PAD_def)

lemma b64decode_b64encode: "b64decode (PStr (b64encode bs)) = Inr bs"
  by (simp add: b64encode_def a2b_base64_def a2b_loop_b2a_base64 b2a_base64_ascii)

subsection \<open>Statements\<close>

lemmas stmt_defs = bindE_def returnE_def raiseE_def lift_def py_print_def emit_def
  os_path_exists_def new_run_id_def read_file_def os_remove_def Inference_new_def
  rembg_remove_call_def model_call_def save_ply_call_def

lemma bindE_assoc: "bindE (bindE m f) g = bindE m (\<lambda>x. bindE (f x) g)"
  by (rule ext) (simp add: bindE_def split: prod.splits sum.splits)

lemma bindE_returnE: "bindE (returnE a) f = f a"
  by (rule ext) (simp add: bindE_def returnE_def)

lemma calls_between_append: "trace w' = trace w @ evs \<Longrightarrow> calls_between w w' = evs"
  by (simp add: calls_between_def)

subsection \<open>\<^verbatim>\<open>load_model\<close>\<close>

lemma load_model_loaded:
  "model w = Some m \<Longrightarrow> load_model env w = (Inr m, w\<lparr>trace := trace w @ [CallLoadModel]\<rparr>)"
  by (simp add: load_model_def stmt_defs)

lemma load_model_frame:
  assumes "load_model env w = (r, w')"
  shows "fs w' = fs w \<and> uuid_ctr w' = uuid_ctr w \<and> stderr w' = stderr w"
  using assms
  by (auto simp add: load_model_def stmt_defs Let_def split: option.splits sum.splits if_splits)

lemma load_model_calls:
  assumes "load_model env w = (r, w')"
  shows "\<exists>lm. trace w' = trace w @ CallLoadModel # lm \<and>
     (lm = [] \<or> model w = None \<and> lm = [CallInference (config_path env) False])"
  using assms
  by (auto simp add: load_model_def stmt_defs Let_def config_path_def
      split: option.splits sum.splits if_splits)

lemma load_model_Inr:
  assumes "load_model env w = (Inr m, w')"
  shows "model w' = Some m"
  using assms
  by (auto simp add: load_model_def stmt_defs Let_def split: option.splits sum.splits if_splits)

lemma load_model_Inl:
  assumes "load_model env w = (Inl e, w')"
  shows "model w = None \<and> model w' = None"
  using assms
  by (auto simp add: load_model_def stmt_defs Let_def split: option.splits sum.splits if_splits)

lemma load_model_constructs:
  assumes "load_model env w = (Inr m, w')" and "model w = None"
  shows "\<exists>cls. Inference env = Some cls \<and> cls (config_path env) False = Inr m \<and>
           fs w (config_path env) \<noteq> None \<and>
           trace w' = trace w @ [CallLoadModel, CallInference (config_path env) False]"
  using assms
  by (auto simp add: load_model_def stmt_defs Let_def config_path_def
      split: option.splits sum.splits if_splits)

subsection \<open>The shared statements\<close>

lemma process_try_pipeline:
  "process_try env img =
     bindE (load_model env) (\<lambda>m.
     bindE (pipeline env m img) (\<lambda>(name, path). returnE (path, path)))"
  by (simp add: process_try_def pipeline_def rgb_version_def Let_def bindE_assoc bindE_returnE)

lemma handler_try_pipeline:
  "handler_try env job_input =
     bindE (load_model env) (\<lambda>m.
     bindE (lift (py_getitem job_input ''image'')) (\<lambda>image_b64.
     bindE (lift (b64decode image_b64)) (\<lambda>image_data.
     bindE (lift (Image_open env image_data)) (\<lambda>input_image.
     bindE (pipeline env m input_image) (\<lambda>(name, path).
     bindE (read_file path) (\<lambda>ply_content.
     bindE (os_path_exists path) (\<lambda>found.
     bindE (if found then os_remove path else returnE ()) (\<lambda>_.
     returnE [(''ply'', PStr (b64encode ply_content)), (''filename'', PStr name)]))))))))"
  by (simp add: handler_try_def pipeline_def rgb_version_def Let_def bindE_assoc bindE_returnE)

lemma pipeline_frame:
  assumes "pipeline env m img w = (r, w')"
  shows "model w' = model w \<and> uuid_ctr w' = Suc (uuid_ctr w) \<and> stderr w' = stderr w"
  using assms unfolding pipeline_def
  by (auto simp add: stmt_defs split: sum.splits prod.splits)

lemma pipeline_calls:
  assumes "pipeline env m img w = (r, w')"
  shows "\<exists>evs. trace w' = trace w @ evs \<and> run_calls env m img (output_path env w) evs"
  using assms unfolding pipeline_def output_path_def output_name_def run_calls_def
  by (auto simp add: stmt_defs split: sum.splits prod.splits)

lemma pipeline_Inr:
  assumes "pipeline env m img w = (Inr (name, path), w')"
  shows "name = output_name env w \<and> path = output_path env w \<and>
    (\<exists>rgb arr rout bands alpha marr output gs.
       rgb_version env img = Inr rgb \<and>
       np_array env rgb = Inr arr \<and> rembg_remove env rgb = Inr rout \<and>
       img_split env rout = Inr bands \<and> py_last bands = Inr alpha \<and>
       np_array env alpha = Inr marr \<and>
       call_model env m (astype_uint8 arr) (gt0 marr) 42 = Inr output \<and>
       py_getitem_dict output ''gs'' = Inr gs \<and>
       save_ply env gs (output_path env w) (fs w) = (Inr (), fs w') \<and>
       trace w' = trace w @ [CallRembg rgb, CallModel m (astype_uint8 arr) (gt0 marr) 42,
                        CallSavePly gs (output_path env w)])"
  using assms unfolding pipeline_def output_path_def output_name_def
  by (auto simp add: stmt_defs split: sum.splits prod.splits)

lemma bindE_cases:
  assumes "bindE m f w = (r, w')"
  obtains (raised) e where "m w = (Inl e, w')" and "r = Inl e"
        | (returned) a w1 where "m w = (Inr a, w1)" and "f a w1 = (r, w')"
  using assms by (auto simp add: bindE_def split: prod.splits sum.splits)

lemma output_path_cong: "uuid_ctr w1 = uuid_ctr w \<Longrightarrow> output_path env w1 = output_path env w"
  by (simp add: output_path_def output_name_def)

lemma output_name_cong: "uuid_ctr w1 = uuid_ctr w \<Longrightarrow> output_name env w1 = output_name env w"
  by (simp add: output_name_def)

subsection \<open>Runs of \<^verbatim>\<open>process\<close>\<close>

lemma process_try_Inr:
  assumes "process_try env img w = (Inr (a, b), w')"
  shows "\<exists>m w1. load_model env w = (Inr m, w1) \<and>
           pipeline env m img w1 = (Inr (output_name env w, output_path env w), w') \<and>
           a = output_path env w \<and> b = output_path env w"
proof -
  from assms obtain m w1 where l: "load_model env w = (Inr m, w1)"
    and rest: "bindE (pipeline env m img) (\<lambda>(name, path). returnE (path, path)) w1 = (Inr (a, b), w')"
    unfolding process_try_pipeline by (cases rule: bindE_cases) auto
  from rest obtain name path where p: "pipeline env m img w1 = (Inr (name, path), w')"
    and ab: "a = path" "b = path"
    by (cases rule: bindE_cases) (auto simp add: returnE_def)
  have u: "uuid_ctr w1 = uuid_ctr w" using load_model_frame [OF l] by simp
  from pipeline_Inr [OF p] have "name = output_name env w" "path = output_path env w"
    by (simp_all add: output_name_cong [OF u] output_path_cong [OF u])
  with l p ab show ?thesis by simp
qed

lemma process_try_run:
  assumes "process_try env img w = (r, w')"
  shows "\<exists>lm evs. trace w' = trace w @ CallLoadModel # lm @ evs \<and>
     (lm = [] \<or> model w = None \<and> lm = [CallInference (config_path env) False]) \<and>
     (evs = [] \<or> (\<exists>m. model w' = Some m \<and> run_calls env m img (output_path env w) evs))"
  using assms unfolding process_try_pipeline
proof (cases rule: bindE_cases)
  case (raised e)
  from load_model_calls [OF raised(1)] obtain lm where
    "trace w' = trace w @ CallLoadModel # lm"
    "lm = [] \<or> model w = None \<and> lm = [CallInference (config_path env) False]"
    by blast
  then show ?thesis by (intro exI [of _ lm] exI [of _ "[]"]) simp
next
  case (returned m w1)
  from load_model_calls [OF returned(1)] obtain lm where
    lm: "trace w1 = trace w @ CallLoadModel # lm"
        "lm = [] \<or> model w = None \<and> lm = [CallInference (config_path env) False]"
    by blast
  have u: "uuid_ctr w1 = uuid_ctr w" using load_model_frame [OF returned(1)] by simp
  have m1: "model w1 = Some m" by (rule load_model_Inr [OF returned(1)])
  from returned(2) obtain r2 where p: "pipeline env m img w1 = (r2, w')"
    by (cases rule: bindE_cases) (auto simp add: returnE_def)
  from pipeline_calls [OF p] obtain evs where
    evs: "trace w' = trace w1 @ evs" "run_calls env m img (output_path env w) evs"
    by (auto simp add: output_path_cong [OF u])
  have "model w' = Some m" using pipeline_frame [OF p] m1 by simp
  with lm evs show ?thesis by auto
qed

lemma process_cases:
  assumes "process env (Some img) w = (r, w')"
  obtains (raised) e w0 where "process_try env img w = (Inl e, w0)" and "is_Exception e"
            and "r = Inl (Exn ''gradio.Error'' (''Error processing image: '' @ exn_str e))"
            and "w' = print_exc e w0"
        | (passed) e where "process_try env img w = (Inl e, w')" and "\<not> is_Exception e"
            and "r = Inl e"
        | (returned) p q where "process_try env img w = (Inr (p, q), w')"
            and "r = Inr (Some p, Some q)"
  using assms by (auto simp add: process_def split: prod.splits sum.splits if_splits)

lemma print_exc_frame:
  "trace (print_exc e w) = trace w \<and> model (print_exc e w) = model w \<and>
   fs (print_exc e w) = fs w \<and> uuid_ctr (print_exc e w) = uuid_ctr w \<and>
   stdout (print_exc e w) = stdout w"
  by (simp add: print_exc_def)

lemma process_run:
  assumes "process env (Some img) w = (r, w')"
  shows "\<exists>lm evs. trace w' = trace w @ CallLoadModel # lm @ evs \<and>
     (lm = [] \<or> model w = None \<and> lm = [CallInference (config_path env) False]) \<and>
     (evs = [] \<or> (\<exists>m. model w' = Some m \<and> run_calls env m img (output_path env w) evs))"
  using assms
proof (cases rule: process_cases)
  case (raised e w0)
  from process_try_run [OF raised(1)] show ?thesis
    by (simp add: raised(4) print_exc_frame)
next
  case (passed e)
  from process_try_run [OF passed(1)] show ?thesis .
next
  case (returned p q)
  from process_try_run [OF returned(1)] show ?thesis .
qed

subsection \<open>Runs of \<^verbatim>\<open>handler\<close>\<close>

lemma handler_cases:
  assumes "handler env job w = (r, w')"
  obtains (no_input) e where "py_getitem_dict job ''input'' = Inl e" and "r = Inl e" and "w' = w"
        | (not_container) job_input e where "py_getitem_dict job ''input'' = Inr job_input"
            and "py_contains ''image'' job_input = Inl e" and "r = Inl e" and "w' = w"
        | (no_image) job_input where "py_getitem_dict job ''input'' = Inr job_input"
            and "py_contains ''image'' job_input = Inr False"
            and "r = Inr [(''error'',
                   PStr ''No image provided in input. Expecting json: {'image': 'base64str'}'')]"
            and "w' = w"
        | (raised) job_input e w0 where "py_getitem_dict job ''input'' = Inr job_input"
            and "py_contains ''image'' job_input = Inr True"
            and "handler_try env job_input w = (Inl e, w0)" and "is_Exception e"
            and "r = Inr [(''error'', PStr (exn_str e))]" and "w' = print_exc e w0"
        | (passed) job_input e where "py_getitem_dict job ''input'' = Inr job_input"
            and "py_contains ''image'' job_input = Inr True"
            and "handler_try env job_input w = (Inl e, w')" and "\<not> is_Exception e"
            and "r = Inl e"
        | (returned) job_input out where "py_getitem_dict job ''input'' = Inr job_input"
            and "py_contains ''image'' job_input = Inr True"
            and "handler_try env job_input w = (Inr out, w')" and "r = Inr out"
  using assms
  by (auto simp add: handler_def bindE_def lift_def returnE_def split: prod.splits sum.splits if_splits)

lemma handler_try_Inr:
  assumes "handler_try env job_input w = (Inr out, w')"
  shows "\<exists>img m w1 w2 content.
           job_image env job_input = Inr img \<and>
           load_model env w = (Inr m, w1) \<and>
           pipeline env m img w1 = (Inr (output_name env w, output_path env w), w2) \<and>
           fs w2 (output_path env w) = Some content \<and>
           w' = w2\<lparr>fs := (fs w2)(output_path env w := None)\<rparr> \<and>
           out = [(''ply'', PStr (b64encode content)), (''filename'', PStr (output_name env w))]"
proof -
  from assms obtain m w1 where l: "load_model env w = (Inr m, w1)"
    and r1: "bindE (lift (py_getitem job_input ''image'')) (\<lambda>image_b64.
     bindE (lift (b64decode image_b64)) (\<lambda>image_data.
     bindE (lift (Image_open env image_data)) (\<lambda>input_image.
     bindE (pipeline env m input_image) (\<lambda>(name, path).
     bindE (read_file path) (\<lambda>ply_content.
     bindE (os_path_exists path) (\<lambda>found.
     bindE (if found then os_remove path else returnE ()) (\<lambda>_.
     returnE [(''ply'', PStr (b64encode ply_content)), (''filename'', PStr name)]))))))) w1 = (Inr out, w')"
    unfolding handler_try_pipeline by (cases rule: bindE_cases) auto
  have u: "uuid_ctr w1 = uuid_ctr w" using load_model_frame [OF l] by simp
  from r1 obtain img where ji: "job_image env job_input = Inr img"
    and r2: "bindE (pipeline env m img) (\<lambda>(name, path).
     bindE (read_file path) (\<lambda>ply_content.
     bindE (os_path_exists path) (\<lambda>found.
     bindE (if found then os_remove path else returnE ()) (\<lambda>_.
     returnE [(''ply'', PStr (b64encode ply_content)), (''filename'', PStr name)])))) w1 = (Inr out, w')"
    by (auto simp add: bindE_def [of "lift _"] lift_def job_image_def split: sum.splits)
  from r2 obtain name path w2 where p: "pipeline env m img w1 = (Inr (name, path), w2)"
    and r3: "bindE (read_file path) (\<lambda>ply_content.
     bindE (os_path_exists path) (\<lambda>found.
     bindE (if found then os_remove path else returnE ()) (\<lambda>_.
     returnE [(''ply'', PStr (b64encode ply_content)), (''filename'', PStr name)]))) w2 = (Inr out, w')"
    by (cases rule: bindE_cases) auto
  from pipeline_Inr [OF p] have np: "name = output_name env w" "path = output_path env w"
    by (simp_all add: output_name_cong [OF u] output_path_cong [OF u])
  from r3 obtain content where "fs w2 path = Some content"
    and "w' = w2\<lparr>fs := (fs w2)(path := None)\<rparr>"
    and "out = [(''ply'', PStr (b64encode content)), (''filename'', PStr name)]"
    by (auto simp add: stmt_defs split: option.splits if_splits)
  with l ji p np show ?thesis by auto
qed

lemma handler_try_run:
  assumes "handler_try env job_input w = (r, w')"
  shows "\<exists>lm evs. trace w' = trace w @ CallLoadModel # lm @ evs \<and>
     (lm = [] \<or> model w = None \<and> lm = [CallInference (config_path env) False]) \<and>
     (evs = [] \<or> (\<exists>m img. model w' = Some m \<and> job_image env job_input = Inr img \<and>
                     run_calls env m img (output_path env w) evs))"
  using assms unfolding handler_try_pipeline
proof (cases rule: bindE_cases)
  case (raised e)
  from load_model_calls [OF raised(1)] obtain lm where
    "trace w' = trace w @ CallLoadModel # lm"
    "lm = [] \<or> model w = None \<and> lm = [CallInference (config_path env) False]"
    by blast
  then show ?thesis by (intro exI [of _ lm] exI [of _ "[]"]) simp
next
  case (returned m w1)
  from load_model_calls [OF returned(1)] obtain lm where
    lm: "trace w1 = trace w @ CallLoadModel # lm"
        "lm = [] \<or> model w = None \<and> lm = [CallInference (config_path env) False]"
    by blast
  have u: "uuid_ctr w1 = uuid_ctr w" using load_model_frame [OF returned(1)] by simp
  have m1: "model w1 = Some m" by (rule load_model_Inr [OF returned(1)])
  show ?thesis
  proof (cases "job_image env job_input")
    case (Inl e)
    then have "w' = w1" using returned(2)
      by (auto simp add: bindE_def [of "lift _"] lift_def job_image_def split: sum.splits)
    with lm show ?thesis by auto
  next
    case (Inr img)
    then have r2: "bindE (pipeline env m img) (\<lambda>(name, path).
       bindE (read_file path) (\<lambda>ply_content.
       bindE (os_path_exists path) (\<lambda>found.
       bindE (if found then os_remove path else returnE ()) (\<lambda>_.
       returnE [(''ply'', PStr (b64encode ply_content)), (''filename'', PStr name)])))) w1 = (r, w')"
      using returned(2)
      by (auto simp add: bindE_def [of "lift _"] lift_def job_image_def split: sum.splits)
    from r2 obtain r2' w2 where p: "pipeline env m img w1 = (r2', w2)"
      and tm: "trace w' = trace w2" "model w' = model w2"
      by (cases rule: bindE_cases) (auto simp add: stmt_defs split: option.splits if_splits)
    from pipeline_calls [OF p] obtain evs where
      evs: "trace w2 = trace w1 @ evs" "run_calls env m img (output_path env w) evs"
      by (auto simp add: output_path_cong [OF u])
    have "model w2 = Some m" using pipeline_frame [OF p] m1 by simp
    with lm evs tm Inr show ?thesis by auto
  qed
qed

lemma handler_run:
  assumes "handler env job w = (r, w')"
  shows "trace w' = trace w \<or>
    (\<exists>job_input lm evs. py_getitem_dict job ''input'' = Inr job_input \<and>
       trace w' = trace w @ CallLoadModel # lm @ evs \<and>
       (lm = [] \<or> model w = None \<and> lm = [CallInference (config_path env) False]) \<and>
       (evs = [] \<or> (\<exists>m img. model w' = Some m \<and> job_image env job_input = Inr img \<and>
                     run_calls env m img (output_path env w) evs)))"
  using assms
proof (cases rule: handler_cases)
  case (raised job_input e w0)
  from handler_try_run [OF raised(3)] raised(1) show ?thesis
    by (simp add: raised(6) print_exc_frame)
next
  case (passed job_input e)
  from handler_try_run [OF passed(3)] passed(1) show ?thesis by blast
next
  case (returned job_input out)
  from handler_try_run [OF returned(3)] returned(1) show ?thesis by blast
qed simp_all

subsection \<open>Runs in which every collaborator returns\<close>

lemma load_model_available:
  assumes "model_available env w m"
  shows "\<exists>lm w1. load_model env w = (Inr m, w1) \<and> trace w1 = trace w @ CallLoadModel # lm \<and>
           (lm = [] \<or> model w = None \<and> lm = [CallInference (config_path env) False]) \<and>
           fs w1 = fs w \<and> uuid_ctr w1 = uuid_ctr w \<and> model w1 = Some m"
proof (cases "model w")
  case (Some m')
  with assms have "model w = Some m" by (simp add: model_available_def)
  then show ?thesis by (simp add: load_model_loaded)
next
  case None
  with assms obtain cls where "Inference env = Some cls" "cls (config_path env) False = Inr m"
    "fs w (config_path env) \<noteq> None" by (auto simp add: model_available_def)
  with None show ?thesis
    by (simp add: load_model_def stmt_defs Let_def config_path_def)
qed

lemma pipeline_returns:
  assumes "collaborators_return env m img (output_path env w) (fs w) rgb a k gs files'"
  shows "\<exists>w'. pipeline env m img w = (Inr (output_name env w, output_path env w), w') \<and>
           trace w' = trace w @ [CallRembg rgb, CallModel m a k 42,
                                 CallSavePly gs (output_path env w)] \<and>
           fs w' = files' \<and> model w' = model w"
  using assms unfolding collaborators_return_def pipeline_def output_path_def output_name_def
  by (auto simp add: stmt_defs)

lemma pipeline_Inr_collaborators:
  assumes "pipeline env m img w = (Inr (name, path), w')"
  shows "\<exists>rgb a k gs.
           collaborators_return env m img (output_path env w) (fs w) rgb a k gs (fs w') \<and>
           trace w' = trace w @ [CallRembg rgb, CallModel m a k 42,
                                 CallSavePly gs (output_path env w)]"
  using pipeline_Inr [OF assms] unfolding collaborators_return_def by blast

lemma collaborators_return_mask:
  assumes "collaborators_return env m img path files rgb a k gs files'"
  shows "alpha_mask env img k"
  using assms unfolding collaborators_return_def alpha_mask_def
  by (auto simp add: elementwise_gt0_def gt0_def)

lemma collaborators_return_rgb:
  assumes "collaborators_return env m img path files rgb a k gs files'"
  shows "rgb_version env img = Inr rgb \<and>
         (\<exists>arr. np_array env rgb = Inr arr \<and> a = astype_uint8 arr)"
  using assms unfolding collaborators_return_def by auto

lemma collaborators_return_save:
  assumes "collaborators_return env m img path files rgb a k gs files'"
  shows "\<exists>res. call_model env m a k 42 = Inr res \<and> py_getitem_dict res ''gs'' = Inr gs \<and>
           save_ply env gs path files = (Inr (), files')"
  using assms unfolding collaborators_return_def by auto

text \<open>A run of \<^verbatim>\<open>process\<close> that returns, and the calls it made.\<close>

lemma process_Inr_calls:
  assumes "process env (Some img) w = (Inr pq, w')"
  shows "\<exists>lm m rgb a k gs.
           calls_between w w' =
             CallLoadModel # lm @ [CallRembg rgb, CallModel m a k 42,
                                   CallSavePly gs (output_path env w)] \<and>
           (lm = [] \<or> model w = None \<and> lm = [CallInference (config_path env) False]) \<and>
           model w' = Some m \<and>
           collaborators_return env m img (output_path env w) (fs w) rgb a k gs (fs w')"
  using assms
proof (cases rule: process_cases)
  case (returned p q)
  from process_try_Inr [OF returned(1)] obtain m w1 where
    l: "load_model env w = (Inr m, w1)" and
    pl: "pipeline env m img w1 = (Inr (output_name env w, output_path env w), w')"
    by blast
  from load_model_calls [OF l] obtain lm where
    lm: "trace w1 = trace w @ CallLoadModel # lm"
        "lm = [] \<or> model w = None \<and> lm = [CallInference (config_path env) False]"
    by blast
  have f: "fs w1 = fs w" "uuid_ctr w1 = uuid_ctr w" using load_model_frame [OF l] by simp_all
  have m': "model w' = Some m"
    using pipeline_frame [OF pl] load_model_Inr [OF l] by simp
  from pipeline_Inr_collaborators [OF pl] obtain rgb a k gs where
    c: "collaborators_return env m img (output_path env w) (fs w) rgb a k gs (fs w')" and
    tr: "trace w' = trace w1 @ [CallRembg rgb, CallModel m a k 42,
                                CallSavePly gs (output_path env w)]"
    unfolding output_path_cong [OF f(2)] f(1) by blast
  have "calls_between w w' =
      CallLoadModel # lm @ [CallRembg rgb, CallModel m a k 42,
                            CallSavePly gs (output_path env w)]"
    by (rule calls_between_append) (simp add: tr lm(1))
  with lm(2) m' c show ?thesis by blast
qed simp_all

text \<open>A job of \<^verbatim>\<open>handler\<close> that returns the \<^verbatim>\<open>ply\<close> object, and the calls it made.\<close>

lemma handler_ply_calls:
  assumes "handler env job w = (Inr out, w')" and "is_ply_output out"
  shows "\<exists>job_input img lm m rgb a k gs files' content.
           py_getitem_dict job ''input'' = Inr job_input \<and>
           job_image env job_input = Inr img \<and>
           calls_between w w' =
             CallLoadModel # lm @ [CallRembg rgb, CallModel m a k 42,
                                   CallSavePly gs (output_path env w)] \<and>
           (lm = [] \<or> model w = None \<and> lm = [CallInference (config_path env) False]) \<and>
           model w' = Some m \<and>
           collaborators_return env m img (output_path env w) (fs w) rgb a k gs files' \<and>
           files' (output_path env w) = Some content \<and>
           fs w' = files'(output_path env w := None) \<and>
           out = [(''ply'', PStr (b64encode content)), (''filename'', PStr (output_name env w))]"
  using assms(1)
proof (cases rule: handler_cases)
  case (no_image job_input)
  with assms(2) show ?thesis by simp
next
  case (raised job_input e w0)
  with assms(2) show ?thesis by simp
next
  case (returned job_input out')
  then have ht: "handler_try env job_input w = (Inr out, w')" by simp
  from handler_try_Inr [OF ht] obtain img m w1 w2 content where
    ji: "job_image env job_input = Inr img" and
    l: "load_model env w = (Inr m, w1)" and
    pl: "pipeline env m img w1 = (Inr (output_name env w, output_path env w), w2)" and
    c: "fs w2 (output_path env w) = Some content" and
    w': "w' = w2\<lparr>fs := (fs w2)(output_path env w := None)\<rparr>" and
    out: "out = [(''ply'', PStr (b64encode content)), (''filename'', PStr (output_name env w))]"
    by blast
  from load_model_calls [OF l] obtain lm where
    lm: "trace w1 = trace w @ CallLoadModel # lm"
        "lm = [] \<or> model w = None \<and> lm = [CallInference (config_path env) False]"
    by blast
  have f: "fs w1 = fs w" "uuid_ctr w1 = uuid_ctr w" using load_model_frame [OF l] by simp_all
  have m': "model w' = Some m"
    using pipeline_frame [OF pl] load_model_Inr [OF l] by (simp add: w')
  from pipeline_Inr_collaborators [OF pl] obtain rgb a k gs where
    cr: "collaborators_return env m img (output_path env w) (fs w) rgb a k gs (fs w2)" and
    tr: "trace w2 = trace w1 @ [CallRembg rgb, CallModel m a k 42,
                                CallSavePly gs (output_path env w)]"
    unfolding output_path_cong [OF f(2)] f(1) by blast
  have cb: "calls_between w w' =
      CallLoadModel # lm @ [CallRembg rgb, CallModel m a k 42,
                            CallSavePly gs (output_path env w)]"
    by (rule calls_between_append) (simp add: w' tr lm(1))
  have fs': "fs w' = (fs w2)(output_path env w := None)" by (simp add: w')
  from returned(1) ji cb lm(2) m' cr c fs' out show ?thesis by blast
qed simp_all

text \<open>When every collaborator returns, so do the two entry points.\<close>

lemma process_progress:
  assumes "model_available env w m"
    and "collaborators_return env m img (output_path env w) (fs w) rgb a k gs files'"
  shows "\<exists>lm w'. process env (Some img) w =
             (Inr (Some (output_path env w), Some (output_path env w)), w') \<and>
           calls_between w w' =
             CallLoadModel # lm @ [CallRembg rgb, CallModel m a k 42,
                                   CallSavePly gs (output_path env w)] \<and>
           (lm = [] \<or> model w = None \<and> lm = [CallInference (config_path env) False]) \<and>
           fs w' = files' \<and> model w' = Some m"
proof -
  from load_model_available [OF assms(1)] obtain lm w1 where
    l: "load_model env w = (Inr m, w1)" and
    lm: "trace w1 = trace w @ CallLoadModel # lm"
        "lm = [] \<or> model w = None \<and> lm = [CallInference (config_path env) False]" and
    f: "fs w1 = fs w" "uuid_ctr w1 = uuid_ctr w" "model w1 = Some m"
    by blast
  have "collaborators_return env m img (output_path env w1) (fs w1) rgb a k gs files'"
    using assms(2) by (simp add: f output_path_cong [OF f(2)])
  from pipeline_returns [OF this] obtain w' where
    pl: "pipeline env m img w1 = (Inr (output_name env w1, output_path env w1), w')" and
    tr: "trace w' = trace w1 @ [CallRembg rgb, CallModel m a k 42,
                                CallSavePly gs (output_path env w1)]" and
    r: "fs w' = files'" "model w' = model w1"
    by blast
  have p: "process env (Some img) w =
             (Inr (Some (output_path env w), Some (output_path env w)), w')"
    by (simp add: process_def process_try_pipeline bindE_def returnE_def l pl
        output_path_cong [OF f(2)])
  have cb: "calls_between w w' =
             CallLoadModel # lm @ [CallRembg rgb, CallModel m a k 42,
                                   CallSavePly gs (output_path env w)]"
    by (rule calls_between_append) (simp add: tr lm(1) output_path_cong [OF f(2)])
  from p cb lm(2) r f(3) show ?thesis by auto
qed

lemma py_getitem_contains:
  assumes "py_getitem v k = Inr x"
  shows "py_contains k v = Inr True"
proof (cases v)
  case (PDict d)
  with assms have "map_of d k = Some x"
    by (simp add: py_getitem_dict_def split: option.splits)
  then have "(k, x) \<in> set d" by (rule map_of_SomeD)
  then have "k \<in> fst ` set d" by force
  with PDict show ?thesis by simp
qed (use assms in simp_all)

lemma job_image_Inr:
  assumes "job_image env job_input = Inr img"
  obtains image_b64 image_data where "py_getitem job_input ''image'' = Inr image_b64"
    and "b64decode image_b64 = Inr image_data" and "Image_open env image_data = Inr img"
  using assms by (auto simp add: job_image_def split: sum.splits)

lemma handler_progress:
  assumes "py_getitem_dict job ''input'' = Inr job_input"
    and "job_image env job_input = Inr img"
    and "model_available env w m"
    and "collaborators_return env m img (output_path env w) (fs w) rgb a k gs files'"
    and "files' (output_path env w) = Some content"
  shows "\<exists>lm w'. handler env job w =
             (Inr [(''ply'', PStr (b64encode content)),
                   (''filename'', PStr (output_name env w))], w') \<and>
           calls_between w w' =
             CallLoadModel # lm @ [CallRembg rgb, CallModel m a k 42,
                                   CallSavePly gs (output_path env w)] \<and>
           (lm = [] \<or> model w = None \<and> lm = [CallInference (config_path env) False]) \<and>
           fs w' = files'(output_path env w := None) \<and> model w' = Some m"
proof -
  from assms(2) obtain image_b64 image_data where
    g: "py_getitem job_input ''image'' = Inr image_b64"
       "b64decode image_b64 = Inr image_data" "Image_open env image_data = Inr img"
    by (rule job_image_Inr)
  from g(1) have c: "py_contains ''image'' job_input = Inr True" by (rule py_getitem_contains)
  from load_model_available [OF assms(3)] obtain lm w1 where
    l: "load_model env w = (Inr m, w1)" and
    lm: "trace w1 = trace w @ CallLoadModel # lm"
        "lm = [] \<or> model w = None \<and> lm = [CallInference (config_path env) False]" and
    f: "fs w1 = fs w" "uuid_ctr w1 = uuid_ctr w" "model w1 = Some m"
    by blast
  have "collaborators_return env m img (output_path env w1) (fs w1) rgb a k gs files'"
    using assms(4) by (simp add: f output_path_cong [OF f(2)])
  from pipeline_returns [OF this] obtain w2 where
    pl: "pipeline env m img w1 = (Inr (output_name env w1, output_path env w1), w2)" and
    tr: "trace w2 = trace w1 @ [CallRembg rgb, CallModel m a k 42,
                                CallSavePly gs (output_path env w1)]" and
    r: "fs w2 = files'" "model w2 = model w1"
    by blast
  let ?w' = "w2\<lparr>fs := (fs w2)(output_path env w := None)\<rparr>"
  have ht: "handler_try env job_input w =
     (Inr [(''ply'', PStr (b64encode content)), (''filename'', PStr (output_name env w))], ?w')"
    unfolding handler_try_pipeline
    by (simp add: bindE_def lift_def returnE_def read_file_def os_path_exists_def os_remove_def
        g l pl r assms(5) output_path_cong [OF f(2)] output_name_cong [OF f(2)])
  have h: "handler env job w =
     (Inr [(''ply'', PStr (b64encode content)), (''filename'', PStr (output_name env w))], ?w')"
    by (simp add: handler_def bindE_def lift_def assms(1) c ht)
  have cb: "calls_between w ?w' =
             CallLoadModel # lm @ [CallRembg rgb, CallModel m a k 42,
                                   CallSavePly gs (output_path env w)]"
    by (rule calls_between_append) (simp add: tr lm(1) output_path_cong [OF f(2)])
  have "fs ?w' = files'(output_path env w := None)" "model ?w' = Some m"
    by (simp_all add: r f(3))
  with h cb lm(2) show ?thesis by blast
qed

subsection \<open>\<^verbatim>\<open>process\<close> on no image\<close>

text \<open>
  Claim C8. Called with \<^verbatim>\<open>None\<close>, \<^verbatim>\<open>process\<close> returns \<^verbatim>\<open>(None, None)\<close> at once: no
  exception, and the world is the one it started in, so nothing was added to the
  trace: \<^verbatim>\<open>load_model\<close>, the background remover and the inference object were not
  called.
\<close>

theorem process_None:
  "process env None w = (Inr (None, None), w) \<and> calls_between w (snd (process env None w)) = []"
  by (simp add: process_def calls_between_def)

theorem process_None_witness:
  "process test_env None test_world = (Inr (None, None), test_world) \<and>
   calls_between test_world (snd (process test_env None test_world)) = []"
  by (rule process_None)

subsection \<open>Loading the model\<close>

lemma load_model_times_loaded:
  "model w = Some m \<Longrightarrow>
     load_model_times env n w = (replicate n (Inr m), w\<lparr>trace := trace w @ replicate n CallLoadModel\<rparr>)"
proof (induction n arbitrary: w)
  case 0
  then show ?case by simp
next
  case (Suc n)
  let ?w1 = "w\<lparr>trace := trace w @ [CallLoadModel]\<rparr>"
  have "model ?w1 = Some m" using Suc.prems by simp
  from Suc.IH [OF this] show ?case
    by (simp add: load_model_loaded [OF Suc.prems] replicate_app_Cons_same)
qed

text \<open>
  Claim C4. \<^verbatim>\<open>load_model\<close> is lazy and loads at most once. In any call, the
  \<^verbatim>\<open>Inference\<close> constructor is called only when the global \<^verbatim>\<open>model\<close> is \<^verbatim>\<open>None\<close>
  (with the configuration path and \<^verbatim>\<open>compile=False\<close>), and at most once. When the
  global holds an object, the call returns that object, leaves the global as it is and
  constructs nothing. When the global is \<^verbatim>\<open>None\<close> and the call returns an object, it
  is the one the constructor returned, constructed in this call. When a call returns
  an object, the global holds it afterwards,
  and any number of further calls return the same object, keep the global, and add
  nothing to the trace but their own entry.
\<close>

theorem load_model_lazy_at_most_once:
  assumes "load_model env w = (r, w')"
  shows "(\<forall>p c. CallInference p c \<in> set (calls_between w w') \<longrightarrow>
            model w = None \<and> p = config_path env \<and> c = False) \<and>
         length (filter is_CallInference (calls_between w w')) \<le> 1 \<and>
         (\<forall>m. model w = Some m \<longrightarrow>
            r = Inr m \<and> model w' = Some m \<and> calls_between w w' = [CallLoadModel]) \<and>
         (\<forall>m. model w = None \<and> r = Inr m \<longrightarrow>
            (\<exists>cls. Inference env = Some cls \<and> cls (config_path env) False = Inr m) \<and>
            calls_between w w' = [CallLoadModel, CallInference (config_path env) False]) \<and>
         (\<forall>m. r = Inr m \<longrightarrow>
            model w' = Some m \<and>
            (\<forall>n. \<exists>w''. load_model_times env n w' = (replicate n (Inr m), w'') \<and>
                   model w'' = Some m \<and>
                   calls_between w' w'' = replicate n CallLoadModel))"
proof -
  from load_model_calls [OF assms] obtain lm where
    lm: "trace w' = trace w @ CallLoadModel # lm"
        "lm = [] \<or> model w = None \<and> lm = [CallInference (config_path env) False]"
    by blast
  have cb: "calls_between w w' = CallLoadModel # lm"
    using lm(1) by (rule calls_between_append)
  have a: "\<forall>p c. CallInference p c \<in> set (calls_between w w') \<longrightarrow>
            model w = None \<and> p = config_path env \<and> c = False"
    using lm(2) by (auto simp add: cb)
  have b: "length (filter is_CallInference (calls_between w w')) \<le> 1"
    using lm(2) by (auto simp add: cb)
  have c: "\<forall>m. model w = Some m \<longrightarrow>
            r = Inr m \<and> model w' = Some m \<and> calls_between w w' = [CallLoadModel]"
    using assms by (auto simp add: load_model_loaded calls_between_def)
  have d: "\<forall>m. r = Inr m \<longrightarrow>
            model w' = Some m \<and>
            (\<forall>n. \<exists>w''. load_model_times env n w' = (replicate n (Inr m), w'') \<and>
                   model w'' = Some m \<and>
                   calls_between w' w'' = replicate n CallLoadModel)"
  proof (intro allI impI)
    fix m assume "r = Inr m"
    with assms have m': "model w' = Some m" by (simp add: load_model_Inr)
    show "model w' = Some m \<and>
            (\<forall>n. \<exists>w''. load_model_times env n w' = (replicate n (Inr m), w'') \<and>
                   model w'' = Some m \<and>
                   calls_between w' w'' = replicate n CallLoadModel)"
      using m' by (simp add: load_model_times_loaded [OF m'] calls_between_def)
  qed
  have e: "\<forall>m. model w = None \<and> r = Inr m \<longrightarrow>
            (\<exists>cls. Inference env = Some cls \<and> cls (config_path env) False = Inr m) \<and>
            calls_between w w' = [CallLoadModel, CallInference (config_path env) False]"
  proof (intro allI impI)
    fix m assume "model w = None \<and> r = Inr m"
    with assms have "load_model env w = (Inr m, w')" and "model w = None" by simp_all
    from load_model_constructs [OF this]
    show "(\<exists>cls. Inference env = Some cls \<and> cls (config_path env) False = Inr m) \<and>
            calls_between w w' = [CallLoadModel, CallInference (config_path env) False]"
      by (auto simp add: calls_between_def)
  qed
  from a b c e d show ?thesis by blast
qed

lemma test_load: "load_model test_env test_world =
   (Inr 7, test_world\<lparr>model := Some 7,
      trace := [CallLoadModel, CallInference ''/workspace/sam-3d-objects/checkpoints/hf/pipeline.yaml'' False],
      stdout := [''Loading Model...'', ''Using config: /workspace/sam-3d-objects/checkpoints/hf/pipeline.yaml'', ''Model loaded.'']\<rparr>)"
  by (simp add: load_model_def stmt_defs test_env_def test_world_def os_path_join_def join_step_def
      REPO_DIR_def CHECKPOINT_DIR_def Let_def)

theorem load_model_lazy_at_most_once_witness:
  "fst (load_model test_env test_world) = Inr 7 \<and>
   model (snd (load_model test_env test_world)) = Some 7 \<and>
   length (filter is_CallInference
     (calls_between test_world (snd (load_model test_env test_world)))) \<le> 1 \<and>
   (\<exists>w''. load_model_times test_env 3 (snd (load_model test_env test_world)) =
            ([Inr 7, Inr 7, Inr 7], w'') \<and> model w'' = Some 7 \<and>
            calls_between (snd (load_model test_env test_world)) w'' =
              [CallLoadModel, CallLoadModel, CallLoadModel])"
proof -
  have run: "load_model test_env test_world =
    (fst (load_model test_env test_world), snd (load_model test_env test_world))" by simp
  have r: "fst (load_model test_env test_world) = Inr 7" by (simp add: test_load)
  from load_model_lazy_at_most_once [OF run] r
  have f: "length (filter is_CallInference
     (calls_between test_world (snd (load_model test_env test_world)))) \<le> 1"
   and g: "model (snd (load_model test_env test_world)) = Some 7 \<and>
            (\<forall>n. \<exists>w''. load_model_times test_env n (snd (load_model test_env test_world)) = (replicate n (Inr 7), w'') \<and>
                   model w'' = Some 7 \<and>
                   calls_between (snd (load_model test_env test_world)) w'' = replicate n CallLoadModel)"
    by blast+
  from g have "\<exists>w''. load_model_times test_env 3 (snd (load_model test_env test_world)) = (replicate 3 (Inr 7), w'') \<and>
                   model w'' = Some 7 \<and>
                   calls_between (snd (load_model test_env test_world)) w'' = replicate 3 CallLoadModel"
    by blast
  then have "\<exists>w''. load_model_times test_env 3 (snd (load_model test_env test_world)) =
            ([Inr 7, Inr 7, Inr 7], w'') \<and> model w'' = Some 7 \<and>
            calls_between (snd (load_model test_env test_world)) w'' =
              [CallLoadModel, CallLoadModel, CallLoadModel]"
    by (simp add: numeral_3_eq_3)
  with r f g show ?thesis by blast
qed

subsection \<open>What a successful request returns\<close>

lemma test_process:
  "fst (process test_env (Some test_image) test_world) =
     Inr (Some ''/workspace/output_run-0.ply'', Some ''/workspace/output_run-0.ply'')"
  by code_simp

lemma test_handler:
  "fst (handler test_env test_job test_world) =
     Inr [(''ply'', PStr ''TU1N''), (''filename'', PStr ''output_run-0.ply'')]"
  by code_simp



text \<open>
  Claim C9. A job of the handler that succeeds (its output has the keys \<^verbatim>\<open>ply\<close> and
  \<^verbatim>\<open>filename\<close>) leaves no output file: \<^verbatim>\<open>save_ply\<close> was called on the output path,
  the file it left there is gone from the final file system (and nothing else
  changed after \<^verbatim>\<open>save_ply\<close>), \<^verbatim>\<open>ply\<close> is the base64 text of exactly the bytes of
  that file and decodes to them, and \<^verbatim>\<open>filename\<close> is \<^verbatim>\<open>output_<run_id>.ply\<close> for the
  UUID drawn for this job, the only one drawn.
\<close>

theorem handler_success_cleanup:
  assumes "handler env job w = (Inr out, w')" and "is_ply_output out"
  shows "\<exists>gs files content.
           CallSavePly gs (output_path env w) \<in> set (calls_between w w') \<and>
           save_ply env gs (output_path env w) (fs w) = (Inr (), files) \<and>
           files (output_path env w) = Some content \<and>
           fs w' = files(output_path env w := None) \<and>
           fs w' (output_path env w) = None \<and>
           out = [(''ply'', PStr (b64encode content)), (''filename'', PStr (output_name env w))] \<and>
           b64decode (PStr (b64encode content)) = Inr content \<and>
           output_name env w = ''output_'' @ uuid4 env (uuid_ctr w) @ ''.ply'' \<and>
           uuid_ctr w' = Suc (uuid_ctr w)"
  using assms(1)
proof (cases rule: handler_cases)
  case (no_image job_input)
  with assms(2) show ?thesis by simp
next
  case (raised job_input e w0)
  with assms(2) show ?thesis by simp
next
  case (returned job_input out')
  then have ht: "handler_try env job_input w = (Inr out, w')" by simp
  from handler_try_Inr [OF ht] obtain img m w1 w2 content where
    l: "load_model env w = (Inr m, w1)" and
    pl: "pipeline env m img w1 = (Inr (output_name env w, output_path env w), w2)" and
    c: "fs w2 (output_path env w) = Some content" and
    w': "w' = w2\<lparr>fs := (fs w2)(output_path env w := None)\<rparr>" and
    out: "out = [(''ply'', PStr (b64encode content)), (''filename'', PStr (output_name env w))]"
    by blast
  have f: "fs w1 = fs w" "uuid_ctr w1 = uuid_ctr w" using load_model_frame [OF l] by simp_all
  from load_model_calls [OF l] obtain lm where lm: "trace w1 = trace w @ CallLoadModel # lm"
    by blast
  from pipeline_Inr [OF pl] have
    "\<exists>rgb a k gs. save_ply env gs (output_path env w1) (fs w1) = (Inr (), fs w2) \<and>
       trace w2 = trace w1 @ [CallRembg rgb, CallModel m a k 42, CallSavePly gs (output_path env w1)]"
    by blast
  then obtain rgb a k gs where
    sv: "save_ply env gs (output_path env w) (fs w) = (Inr (), fs w2)" and
    tr: "trace w2 = trace w1 @ [CallRembg rgb, CallModel m a k 42, CallSavePly gs (output_path env w)]"
    unfolding output_path_cong [OF f(2)] f(1) by blast
  have cb: "calls_between w w' =
      CallLoadModel # lm @ [CallRembg rgb, CallModel m a k 42, CallSavePly gs (output_path env w)]"
    by (rule calls_between_append) (simp add: w' tr lm)
  have u: "uuid_ctr w' = Suc (uuid_ctr w)"
    using pipeline_frame [OF pl] f(2) by (simp add: w')
  have mem: "CallSavePly gs (output_path env w) \<in> set (calls_between w w')"
    by (simp add: cb)
  have fs': "fs w' = (fs w2)(output_path env w := None)"
    by (simp add: w')
  have gone: "fs w' (output_path env w) = None"
    by (simp add: w')
  have name: "output_name env w = ''output_'' @ uuid4 env (uuid_ctr w) @ ''.ply''"
    by (simp add: output_name_def)
  have decoded: "b64decode (PStr (b64encode content)) = Inr content"
    by (rule b64decode_b64encode)
  from mem sv c fs' gone out decoded name u show ?thesis by blast
qed simp_all

theorem handler_success_cleanup_witness:
  "fst (handler test_env test_job test_world) =
     Inr [(''ply'', PStr ''TU1N''), (''filename'', PStr ''output_run-0.ply'')] \<and>
   fs (snd (handler test_env test_job test_world)) (output_path test_env test_world) = None \<and>
   b64decode (PStr ''TU1N'') = Inr [77, 77, 77] \<and>
   uuid_ctr (snd (handler test_env test_job test_world)) = 1"
proof -
  have run: "handler test_env test_job test_world =
     (Inr [(''ply'', PStr ''TU1N''), (''filename'', PStr ''output_run-0.ply'')],
      snd (handler test_env test_job test_world))"
    using test_handler by (simp add: prod_eq_iff)
  have ply: "is_ply_output [(''ply'', PStr ''TU1N''), (''filename'', PStr ''output_run-0.ply'')]"
    by simp
  have d: "b64decode (PStr ''TU1N'') = Inr [77, 77, 77]" by code_simp
  from handler_success_cleanup [OF run ply] show ?thesis
    using test_handler d by (auto simp add: test_world_def)
qed

subsection \<open>What the handler returns, and which exceptions leave it\<close>

lemma handler_try_shape:
  assumes "handler_try env job_input w = (Inr out, w')"
  shows "is_ply_output out"
  using handler_try_Inr [OF assms] by auto

lemma handler_returns:
  assumes "handler env job w = (Inr out, w')"
  shows "is_ply_output out \<or> is_error_output out"
  using assms
proof (cases rule: handler_cases)
  case (returned job_input out')
  then show ?thesis using handler_try_shape [of env job_input w out w'] by simp
qed simp_all

lemma py_contains_container:
  "is_container v \<Longrightarrow> \<exists>b. py_contains k v = Inr b"
  by (cases v) simp_all

lemma py_contains_not_container:
  "\<not> is_container v \<Longrightarrow>
     py_contains k v =
       Inl (Exn ''TypeError'' (''argument of type '' @ quote (py_type_name v) @ '' is not iterable''))"
  by (cases v) simp_all

lemma py_getitem_dict_Exception:
  "py_getitem_dict d k = Inl e \<Longrightarrow> is_Exception e"
  by (auto simp add: py_getitem_dict_def split: option.splits)

lemma py_contains_Exception:
  "py_contains k v = Inl e \<Longrightarrow> is_Exception e"
  by (cases v) auto

lemma handler_total:
  assumes "py_getitem_dict job ''input'' = Inr job_input" and "is_container job_input"
  shows "(\<exists>out w'. handler env job w = (Inr out, w')) \<or>
         (\<exists>e w'. handler env job w = (Inl e, w') \<and> \<not> is_Exception e \<and>
                  handler_try env job_input w = (Inl e, w'))"
proof -
  from py_contains_container [OF assms(2)] obtain b where
    b: "py_contains ''image'' job_input = Inr b" by blast
  show ?thesis
    using assms(1) b
    by (cases "handler_try env job_input w")
       (auto simp add: handler_def bindE_def lift_def returnE_def split: sum.splits)
qed

text \<open>
  Claim C1, as amended. For a job whose \<^verbatim>\<open>'input'\<close> entry is an object, an array or a
  string, the handler either returns, and what it returns is
  \<^verbatim>\<open>{"ply": str, "filename": str}\<close> or \<^verbatim>\<open>{"error": str}\<close>, or lets through an exception
  that was raised inside its \<^verbatim>\<open>try\<close> block and is not an instance of \<^verbatim>\<open>Exception\<close>
  (\<^verbatim>\<open>KeyboardInterrupt\<close>, \<^verbatim>\<open>SystemExit\<close>, \<^verbatim>\<open>GeneratorExit\<close>). Whenever the handler returns
  at all, the output has one of the two shapes. When the input does not contain
  \<^verbatim>\<open>'image'\<close> the output is the error object and the world is unchanged: nothing
  was called, neither \<^verbatim>\<open>load_model\<close> nor the model. A job with no \<^verbatim>\<open>'input'\<close> entry,
  or whose input is \<^verbatim>\<open>null\<close>, a boolean or a number, makes the handler raise
  (\<^verbatim>\<open>KeyError\<close>, \<^verbatim>\<open>TypeError\<close>) before its \<^verbatim>\<open>try\<close> block, the world unchanged.
\<close>

theorem handler_output_shape:
  "(\<forall>job_input. py_getitem_dict job ''input'' = Inr job_input \<and> is_container job_input \<longrightarrow>
      (\<exists>out w'. handler env job w = (Inr out, w') \<and>
                 (is_ply_output out \<or> is_error_output out)) \<or>
      (\<exists>e w'. handler env job w = (Inl e, w') \<and> \<not> is_Exception e \<and>
               handler_try env job_input w = (Inl e, w'))) \<and>
   (\<forall>out w'. handler env job w = (Inr out, w') \<longrightarrow> is_ply_output out \<or> is_error_output out) \<and>
   (\<forall>job_input. py_getitem_dict job ''input'' = Inr job_input \<and>
                 py_contains ''image'' job_input = Inr False \<longrightarrow>
      handler env job w =
        (Inr [(''error'',
           PStr ''No image provided in input. Expecting json: {'image': 'base64str'}'')], w)) \<and>
   (\<forall>e. py_getitem_dict job ''input'' = Inl e \<longrightarrow> handler env job w = (Inl e, w)) \<and>
   (\<forall>job_input. py_getitem_dict job ''input'' = Inr job_input \<and> \<not> is_container job_input \<longrightarrow>
      handler env job w =
        (Inl (Exn ''TypeError''
           (''argument of type '' @ quote (py_type_name job_input) @ '' is not iterable'')), w))"
proof (intro conjI allI impI)
  fix job_input
  assume a: "py_getitem_dict job ''input'' = Inr job_input \<and> is_container job_input"
  from a have "(\<exists>out w'. handler env job w = (Inr out, w')) \<or>
         (\<exists>e w'. handler env job w = (Inl e, w') \<and> \<not> is_Exception e \<and>
                  handler_try env job_input w = (Inl e, w'))"
    using handler_total [of job job_input env w] by blast
  then show "(\<exists>out w'. handler env job w = (Inr out, w') \<and>
                 (is_ply_output out \<or> is_error_output out)) \<or>
      (\<exists>e w'. handler env job w = (Inl e, w') \<and> \<not> is_Exception e \<and>
               handler_try env job_input w = (Inl e, w'))"
    using handler_returns by blast
next
  fix out w'
  assume "handler env job w = (Inr out, w')"
  then show "is_ply_output out \<or> is_error_output out" by (rule handler_returns)
next
  fix job_input
  assume "py_getitem_dict job ''input'' = Inr job_input \<and>
          py_contains ''image'' job_input = Inr False"
  then show "handler env job w =
        (Inr [(''error'',
           PStr ''No image provided in input. Expecting json: {'image': 'base64str'}'')], w)"
    by (simp add: handler_def bindE_def lift_def returnE_def)
next
  fix e
  assume "py_getitem_dict job ''input'' = Inl e"
  then show "handler env job w = (Inl e, w)"
    by (simp add: handler_def bindE_def lift_def)
next
  fix job_input
  assume "py_getitem_dict job ''input'' = Inr job_input \<and> \<not> is_container job_input"
  then show "handler env job w =
        (Inl (Exn ''TypeError''
           (''argument of type '' @ quote (py_type_name job_input) @ '' is not iterable'')), w)"
    by (simp add: handler_def bindE_def lift_def py_contains_not_container)
qed

lemma test_handler_interrupt:
  "fst (handler test_env_interrupt test_job test_world) = Inl (BaseExn ''KeyboardInterrupt'' '''')"
  by code_simp

theorem handler_output_shape_witness:
  "(\<exists>out w'. handler test_env test_job test_world = (Inr out, w') \<and>
              (is_ply_output out \<or> is_error_output out)) \<and>
   handler test_env test_job_no_image test_world =
     (Inr [(''error'',
        PStr ''No image provided in input. Expecting json: {'image': 'base64str'}'')],
      test_world) \<and>
   (\<exists>w'. handler test_env_interrupt test_job test_world =
            (Inl (BaseExn ''KeyboardInterrupt'' ''''), w') \<and>
          handler_try test_env_interrupt (PDict [(''image'', PStr ''TQ=='')]) test_world =
            (Inl (BaseExn ''KeyboardInterrupt'' ''''), w'))"
proof -
  have i: "py_getitem_dict test_job ''input'' = Inr (PDict [(''image'', PStr ''TQ=='')])"
    by (simp add: py_getitem_dict_def test_job_def)
  have c: "is_container (PDict [(''image'', PStr ''TQ=='')])" by simp
  have j: "py_getitem_dict test_job_no_image ''input'' = Inr (PDict [(''prompt'', PStr ''a chair'')])"
    by (simp add: py_getitem_dict_def test_job_no_image_def)
  have n: "py_contains ''image'' (PDict [(''prompt'', PStr ''a chair'')]) = Inr False" by simp
  from handler_output_shape [of test_job test_env test_world] i c
  have "(\<exists>out w'. handler test_env test_job test_world = (Inr out, w') \<and>
              (is_ply_output out \<or> is_error_output out)) \<or>
      (\<exists>e w'. handler test_env test_job test_world = (Inl e, w') \<and> \<not> is_Exception e \<and>
               handler_try test_env (PDict [(''image'', PStr ''TQ=='')]) test_world = (Inl e, w'))"
    by blast
  moreover have "\<not> (\<exists>e w'. handler test_env test_job test_world = (Inl e, w'))"
    using test_handler by (auto simp add: prod_eq_iff)
  ultimately have 1: "\<exists>out w'. handler test_env test_job test_world = (Inr out, w') \<and>
              (is_ply_output out \<or> is_error_output out)" by blast
  from handler_output_shape [of test_job_no_image test_env test_world] j n
  have 2: "handler test_env test_job_no_image test_world =
     (Inr [(''error'',
        PStr ''No image provided in input. Expecting json: {'image': 'base64str'}'')],
      test_world)" by blast
  from handler_output_shape [of test_job test_env_interrupt test_world] i c
  have "(\<exists>out w'. handler test_env_interrupt test_job test_world = (Inr out, w') \<and>
              (is_ply_output out \<or> is_error_output out)) \<or>
      (\<exists>e w'. handler test_env_interrupt test_job test_world = (Inl e, w') \<and> \<not> is_Exception e \<and>
               handler_try test_env_interrupt (PDict [(''image'', PStr ''TQ=='')]) test_world =
                 (Inl e, w'))"
    by blast
  then have 3: "\<exists>w'. handler test_env_interrupt test_job test_world =
            (Inl (BaseExn ''KeyboardInterrupt'' ''''), w') \<and>
          handler_try test_env_interrupt (PDict [(''image'', PStr ''TQ=='')]) test_world =
            (Inl (BaseExn ''KeyboardInterrupt'' ''''), w')"
    using test_handler_interrupt by (auto simp add: prod_eq_iff)
  from 1 2 3 show ?thesis by blast
qed

theorem handler_output_shape_counterexample:
  "handler test_env test_job_number test_world =
     (Inl (Exn ''TypeError'' ''argument of type 'int' is not iterable''), test_world)"
  by (simp add: handler_def bindE_def lift_def py_getitem_dict_def test_job_number_def quote_def)

text \<open>
  Claim C2, as amended. An exception that is an instance of \<^verbatim>\<open>Exception\<close> and is
  raised inside the \<^verbatim>\<open>try\<close> block of a request handler is caught there. In the UI (the
  block is all of \<^verbatim>\<open>process\<close> past the test for \<^verbatim>\<open>None\<close>) it is printed and raised again
  as \<^verbatim>\<open>gr.Error\<close> with the message \<^verbatim>\<open>Error processing image: \<close> followed by its text. In
  the handler (the block starts with \<^verbatim>\<open>load_model\<close>) it is printed and returned as
  \<^verbatim>\<open>{"error": str(e)}\<close>. An exception raised inside the block that is not an
  instance of \<^verbatim>\<open>Exception\<close> (\<^verbatim>\<open>KeyboardInterrupt\<close>, \<^verbatim>\<open>SystemExit\<close>, \<^verbatim>\<open>GeneratorExit\<close>) is
  not caught: it leaves \<^verbatim>\<open>process\<close>, and \<^verbatim>\<open>handler\<close>, as it is. \<^verbatim>\<open>process\<close> raises
  nothing but that \<^verbatim>\<open>gr.Error\<close> and such exceptions. The two statements of
  \<^verbatim>\<open>handler\<close> before its \<^verbatim>\<open>try\<close> are not covered either: what \<^verbatim>\<open>handler\<close> lets
  through is the \<^verbatim>\<open>KeyError\<close> of \<^verbatim>\<open>job['input']\<close>, the \<^verbatim>\<open>TypeError\<close> of
  \<^verbatim>\<open>'image' not in job_input\<close> (the world unchanged in both), or an exception of the
  \<^verbatim>\<open>try\<close> block that is not an instance of \<^verbatim>\<open>Exception\<close>, and nothing else.
\<close>

theorem exceptions_caught_in_try:
  "(\<forall>e w0. process_try env img w = (Inl e, w0) \<and> is_Exception e \<longrightarrow>
      process env (Some img) w =
        (Inl (Exn ''gradio.Error'' (''Error processing image: '' @ exn_str e)), print_exc e w0)) \<and>
   (\<forall>e w0. process_try env img w = (Inl e, w0) \<and> \<not> is_Exception e \<longrightarrow>
      process env (Some img) w = (Inl e, w0)) \<and>
   (\<forall>e' w'. process env input_image w = (Inl e', w') \<longrightarrow>
      (is_Exception e' \<and> exn_class e' = ''gradio.Error'' \<and>
       (\<exists>e. is_Exception e \<and> exn_str e' = ''Error processing image: '' @ exn_str e)) \<or>
      (\<not> is_Exception e' \<and>
       (\<exists>i. input_image = Some i \<and> process_try env i w = (Inl e', w')))) \<and>
   (\<forall>job_input e w0.
      py_getitem_dict job ''input'' = Inr job_input \<and>
      py_contains ''image'' job_input = Inr True \<and>
      handler_try env job_input w = (Inl e, w0) \<and> is_Exception e \<longrightarrow>
      handler env job w = (Inr [(''error'', PStr (exn_str e))], print_exc e w0)) \<and>
   (\<forall>job_input e w0.
      py_getitem_dict job ''input'' = Inr job_input \<and>
      py_contains ''image'' job_input = Inr True \<and>
      handler_try env job_input w = (Inl e, w0) \<and> \<not> is_Exception e \<longrightarrow>
      handler env job w = (Inl e, w0)) \<and>
   (\<forall>e w'. handler env job w = (Inl e, w') \<longrightarrow>
      (is_Exception e \<and> w' = w \<and>
       (py_getitem_dict job ''input'' = Inl e \<or>
        (\<exists>job_input. py_getitem_dict job ''input'' = Inr job_input \<and>
                      py_contains ''image'' job_input = Inl e))) \<or>
      (\<not> is_Exception e \<and>
       (\<exists>job_input. py_getitem_dict job ''input'' = Inr job_input \<and>
                     py_contains ''image'' job_input = Inr True \<and>
                     handler_try env job_input w = (Inl e, w'))))"
proof (intro conjI allI impI)
  fix e w0
  assume "process_try env img w = (Inl e, w0) \<and> is_Exception e"
  then show "process env (Some img) w =
        (Inl (Exn ''gradio.Error'' (''Error processing image: '' @ exn_str e)), print_exc e w0)"
    by (simp add: process_def)
next
  fix e w0
  assume "process_try env img w = (Inl e, w0) \<and> \<not> is_Exception e"
  then show "process env (Some img) w = (Inl e, w0)"
    by (simp add: process_def)
next
  fix e' w'
  assume p: "process env input_image w = (Inl e', w')"
  show "(is_Exception e' \<and> exn_class e' = ''gradio.Error'' \<and>
       (\<exists>e. is_Exception e \<and> exn_str e' = ''Error processing image: '' @ exn_str e)) \<or>
      (\<not> is_Exception e' \<and>
       (\<exists>i. input_image = Some i \<and> process_try env i w = (Inl e', w')))"
  proof (cases input_image)
    case None
    with p show ?thesis by (simp add: process_def)
  next
    case (Some i)
    with p have "process env (Some i) w = (Inl e', w')" by simp
    then show ?thesis
    proof (cases rule: process_cases)
      case (raised e w0)
      then show ?thesis by auto
    next
      case (passed e)
      with Some show ?thesis by simp
    next
      case (returned p q)
      then show ?thesis by simp
    qed
  qed
next
  fix job_input e w0
  assume "py_getitem_dict job ''input'' = Inr job_input \<and>
      py_contains ''image'' job_input = Inr True \<and>
      handler_try env job_input w = (Inl e, w0) \<and> is_Exception e"
  then show "handler env job w = (Inr [(''error'', PStr (exn_str e))], print_exc e w0)"
    by (simp add: handler_def bindE_def lift_def)
next
  fix job_input e w0
  assume "py_getitem_dict job ''input'' = Inr job_input \<and>
      py_contains ''image'' job_input = Inr True \<and>
      handler_try env job_input w = (Inl e, w0) \<and> \<not> is_Exception e"
  then show "handler env job w = (Inl e, w0)"
    by (simp add: handler_def bindE_def lift_def)
next
  fix e w'
  assume h: "handler env job w = (Inl e, w')"
  then show "(is_Exception e \<and> w' = w \<and>
       (py_getitem_dict job ''input'' = Inl e \<or>
        (\<exists>job_input. py_getitem_dict job ''input'' = Inr job_input \<and>
                      py_contains ''image'' job_input = Inl e))) \<or>
      (\<not> is_Exception e \<and>
       (\<exists>job_input. py_getitem_dict job ''input'' = Inr job_input \<and>
                     py_contains ''image'' job_input = Inr True \<and>
                     handler_try env job_input w = (Inl e, w')))"
  proof (cases rule: handler_cases)
    case (no_input e0)
    with py_getitem_dict_Exception [of job "''input''" e0] show ?thesis by simp
  next
    case (not_container job_input e0)
    with py_contains_Exception [of "''image''" job_input e0] show ?thesis by simp
  next
    case (passed job_input e0)
    then show ?thesis by simp
  qed simp_all
qed

lemma test_handler_bad_base64:
  "fst (handler_try test_env (PDict [(''image'', PStr ''T'')]) test_world) =
     Inl (Exn ''binascii.Error''
       ''Invalid base64-encoded string: number of data characters (1) cannot be 1 more than a multiple of 4'')"
  by code_simp

lemma test_process_no_bands:
  "fst (process_try test_env test_image_no_bands test_world) =
     Inl (Exn ''ValueError'' ''conversion not supported'')"
  by code_simp

lemma test_process_try_interrupt:
  "fst (process_try test_env_interrupt test_image test_world) =
     Inl (BaseExn ''KeyboardInterrupt'' '''')"
  by code_simp

theorem exceptions_caught_in_try_witness:
  "fst (process test_env (Some test_image_no_bands) test_world) =
     Inl (Exn ''gradio.Error'' ''Error processing image: conversion not supported'') \<and>
   fst (handler test_env test_job_bad_base64 test_world) =
     Inr [(''error'', PStr
       ''Invalid base64-encoded string: number of data characters (1) cannot be 1 more than a multiple of 4'')] \<and>
   fst (process test_env_interrupt (Some test_image) test_world) =
     Inl (BaseExn ''KeyboardInterrupt'' '''')"
proof -
  have p: "process_try test_env test_image_no_bands test_world =
     (Inl (Exn ''ValueError'' ''conversion not supported''),
      snd (process_try test_env test_image_no_bands test_world))"
    using test_process_no_bands by (simp add: prod_eq_iff)
  have i: "py_getitem_dict test_job_bad_base64 ''input'' = Inr (PDict [(''image'', PStr ''T'')])"
    by (simp add: py_getitem_dict_def test_job_bad_base64_def)
  have c: "py_contains ''image'' (PDict [(''image'', PStr ''T'')]) = Inr True" by simp
  have h: "handler_try test_env (PDict [(''image'', PStr ''T'')]) test_world =
     (Inl (Exn ''binascii.Error''
       ''Invalid base64-encoded string: number of data characters (1) cannot be 1 more than a multiple of 4''),
      snd (handler_try test_env (PDict [(''image'', PStr ''T'')]) test_world))"
    using test_handler_bad_base64 by (simp add: prod_eq_iff)
  have q: "process_try test_env_interrupt test_image test_world =
     (Inl (BaseExn ''KeyboardInterrupt'' ''''),
      snd (process_try test_env_interrupt test_image test_world))"
    using test_process_try_interrupt by (simp add: prod_eq_iff)
  have x1: "is_Exception (Exn ''ValueError'' ''conversion not supported'')" by simp
  have x2: "is_Exception (Exn ''binascii.Error''
       ''Invalid base64-encoded string: number of data characters (1) cannot be 1 more than a multiple of 4'')"
    by simp
  have x3: "\<not> is_Exception (BaseExn ''KeyboardInterrupt'' '''')" by simp
  from exceptions_caught_in_try [of test_env test_image_no_bands test_world None test_job_bad_base64]
  have 1: "process test_env (Some test_image_no_bands) test_world =
        (Inl (Exn ''gradio.Error'' (''Error processing image: '' @
           exn_str (Exn ''ValueError'' ''conversion not supported''))),
         print_exc (Exn ''ValueError'' ''conversion not supported'')
           (snd (process_try test_env test_image_no_bands test_world)))"
    using p x1 by blast
  from exceptions_caught_in_try [of test_env test_image_no_bands test_world None test_job_bad_base64]
  have 2: "handler test_env test_job_bad_base64 test_world =
     (Inr [(''error'', PStr (exn_str (Exn ''binascii.Error''
       ''Invalid base64-encoded string: number of data characters (1) cannot be 1 more than a multiple of 4'')))],
      print_exc (Exn ''binascii.Error''
       ''Invalid base64-encoded string: number of data characters (1) cannot be 1 more than a multiple of 4'')
        (snd (handler_try test_env (PDict [(''image'', PStr ''T'')]) test_world)))"
    using i c h x2 by blast
  from exceptions_caught_in_try [of test_env_interrupt test_image test_world None test_job]
  have 3: "process test_env_interrupt (Some test_image) test_world =
     (Inl (BaseExn ''KeyboardInterrupt'' ''''),
      snd (process_try test_env_interrupt test_image test_world))"
    using q x3 by blast
  from 1 2 3 show ?thesis by simp
qed

theorem exceptions_caught_in_try_counterexample:
  "handler test_env test_job_bool test_world =
     (Inl (Exn ''TypeError'' ''argument of type 'bool' is not iterable''), test_world)"
  by (simp add: handler_def bindE_def lift_def py_getitem_dict_def test_job_bool_def quote_def)

subsection \<open>The two entry points do the same work on the same image\<close>

lemma try_blocks_agree_raised:
  assumes "job_image env job_input = Inr img"
    and "process_try env img w = (Inl e, w1)"
  shows "handler_try env job_input w = (Inl e, w1)"
proof -
  from assms(1) obtain image_b64 image_data where
    g: "py_getitem job_input ''image'' = Inr image_b64"
       "b64decode image_b64 = Inr image_data" "Image_open env image_data = Inr img"
    by (rule job_image_Inr)
  from assms(2) show ?thesis
    unfolding process_try_pipeline handler_try_pipeline
    by (auto simp add: bindE_def lift_def returnE_def g split: prod.splits sum.splits)
qed

lemma try_blocks_agree_returned:
  assumes "job_image env job_input = Inr img"
    and "process_try env img w = (Inr (p, q), w1)"
  shows "handler_try env job_input w =
     (case fs w1 (output_path env w) of
        None \<Rightarrow>
          (Inl (Exn ''FileNotFoundError''
             (''[Errno 2] No such file or directory: '' @ quote (output_path env w))), w1)
      | Some content \<Rightarrow>
          (Inr [(''ply'', PStr (b64encode content)), (''filename'', PStr (output_name env w))],
           w1\<lparr>fs := (fs w1)(output_path env w := None)\<rparr>))"
proof -
  from assms(1) obtain image_b64 image_data where
    g: "py_getitem job_input ''image'' = Inr image_b64"
       "b64decode image_b64 = Inr image_data" "Image_open env image_data = Inr img"
    by (rule job_image_Inr)
  from process_try_Inr [OF assms(2)] obtain m w0 where
    l: "load_model env w = (Inr m, w0)" and
    pl: "pipeline env m img w0 = (Inr (output_name env w, output_path env w), w1)"
    by blast
  show ?thesis
    unfolding handler_try_pipeline
    by (simp add: bindE_def lift_def returnE_def read_file_def os_path_exists_def os_remove_def
        g l pl split: option.splits)
qed

lemma upload_and_click_calls:
  assumes "gr_Image_preprocess env upload = Inr img"
  shows "calls_between w (snd (upload_and_click env upload w)) =
         calls_between w (snd (process env (Some img) w))"
  by (cases "process env (Some img) w")
     (auto simp add: upload_and_click_def btn_click_def bindE_def lift_def returnE_def assms
        split: sum.splits prod.splits)

text \<open>
  Claim C3, as amended. The two entry points perform the same computation when they
  are given the same image, not the same bytes: take a job whose input carries,
  under \<^verbatim>\<open>'image'\<close>, base64 text that decodes and opens to the image \<open>img\<close>, and run
  \<^verbatim>\<open>process\<close> on \<open>img\<close> (as a click does when the UI's image component made \<open>img\<close> of
  the upload) and \<^verbatim>\<open>handler\<close> on the job, from the same world. The two make the same
  calls with the same arguments in the same order: the remover on the same RGB image,
  the model on the same two arrays with seed 42, \<^verbatim>\<open>save_ply\<close> on the same object and
  path. Where \<^verbatim>\<open>process\<close> raises \<^verbatim>\<open>gr.Error\<close> for an exception, \<^verbatim>\<open>handler\<close> returns that
  exception's text under \<^verbatim>\<open>error\<close>, in the same world; an exception that is not an
  instance of \<^verbatim>\<open>Exception\<close> leaves both. Where \<^verbatim>\<open>process\<close> returns the output path
  (twice), \<^verbatim>\<open>handler\<close> returns the base64 text of the bytes at that path and the
  file's name, in the same world with that file removed (or an error, had
  \<^verbatim>\<open>save_ply\<close> left no file there). How the bytes become an image is part of the
  transport: the UI's component decodes an upload on its own, and nothing makes its
  image the one \<^verbatim>\<open>Image.open\<close> gives for the same bytes.
\<close>

theorem entry_points_same_computation:
  assumes "py_getitem_dict job ''input'' = Inr job_input"
    and "job_image env job_input = Inr img"
  shows "calls_between w (snd (handler env job w)) =
           calls_between w (snd (process env (Some img) w)) \<and>
         (\<forall>upload. gr_Image_preprocess env upload = Inr img \<longrightarrow>
            calls_between w (snd (handler env job w)) =
              calls_between w (snd (upload_and_click env upload w))) \<and>
         model (snd (handler env job w)) = model (snd (process env (Some img) w)) \<and>
         stdout (snd (handler env job w)) = stdout (snd (process env (Some img) w)) \<and>
         (\<forall>e w1. process_try env img w = (Inl e, w1) \<and> is_Exception e \<longrightarrow>
            process env (Some img) w =
              (Inl (Exn ''gradio.Error'' (''Error processing image: '' @ exn_str e)),
               print_exc e w1) \<and>
            handler env job w = (Inr [(''error'', PStr (exn_str e))], print_exc e w1)) \<and>
         (\<forall>e w1. process_try env img w = (Inl e, w1) \<and> \<not> is_Exception e \<longrightarrow>
            process env (Some img) w = (Inl e, w1) \<and> handler env job w = (Inl e, w1)) \<and>
         (\<forall>preview download w1.
            process env (Some img) w = (Inr (preview, download), w1) \<longrightarrow>
            preview = Some (output_path env w) \<and> download = Some (output_path env w) \<and>
            (\<forall>content. fs w1 (output_path env w) = Some content \<longrightarrow>
               handler env job w =
                 (Inr [(''ply'', PStr (b64encode content)),
                       (''filename'', PStr (output_name env w))],
                  w1\<lparr>fs := (fs w1)(output_path env w := None)\<rparr>)) \<and>
            (fs w1 (output_path env w) = None \<longrightarrow>
               handler env job w =
                 (Inr [(''error'', PStr
                    (''[Errno 2] No such file or directory: '' @ quote (output_path env w)))],
                  print_exc (Exn ''FileNotFoundError''
                    (''[Errno 2] No such file or directory: '' @ quote (output_path env w))) w1)))"
proof -
  from assms(2) obtain image_b64 where "py_getitem job_input ''image'' = Inr image_b64"
    by (rule job_image_Inr)
  then have c: "py_contains ''image'' job_input = Inr True" by (rule py_getitem_contains)
  have h: "handler env job w =
     (case handler_try env job_input w of
        (Inr out, w') \<Rightarrow> (Inr out, w')
      | (Inl e, w') \<Rightarrow>
          if is_Exception e then (Inr [(''error'', PStr (exn_str e))], print_exc e w')
          else (Inl e, w'))"
    by (simp add: handler_def bindE_def lift_def assms(1) c)
  have main: "calls_between w (snd (handler env job w)) =
           calls_between w (snd (process env (Some img) w)) \<and>
         model (snd (handler env job w)) = model (snd (process env (Some img) w)) \<and>
         stdout (snd (handler env job w)) = stdout (snd (process env (Some img) w)) \<and>
         (\<forall>e w1. process_try env img w = (Inl e, w1) \<and> is_Exception e \<longrightarrow>
            process env (Some img) w =
              (Inl (Exn ''gradio.Error'' (''Error processing image: '' @ exn_str e)),
               print_exc e w1) \<and>
            handler env job w = (Inr [(''error'', PStr (exn_str e))], print_exc e w1)) \<and>
         (\<forall>e w1. process_try env img w = (Inl e, w1) \<and> \<not> is_Exception e \<longrightarrow>
            process env (Some img) w = (Inl e, w1) \<and> handler env job w = (Inl e, w1)) \<and>
         (\<forall>preview download w1.
            process env (Some img) w = (Inr (preview, download), w1) \<longrightarrow>
            preview = Some (output_path env w) \<and> download = Some (output_path env w) \<and>
            (\<forall>content. fs w1 (output_path env w) = Some content \<longrightarrow>
               handler env job w =
                 (Inr [(''ply'', PStr (b64encode content)),
                       (''filename'', PStr (output_name env w))],
                  w1\<lparr>fs := (fs w1)(output_path env w := None)\<rparr>)) \<and>
            (fs w1 (output_path env w) = None \<longrightarrow>
               handler env job w =
                 (Inr [(''error'', PStr
                    (''[Errno 2] No such file or directory: '' @ quote (output_path env w)))],
                  print_exc (Exn ''FileNotFoundError''
                    (''[Errno 2] No such file or directory: '' @ quote (output_path env w))) w1)))"
  proof (cases "process_try env img w")
    case (Pair r w1)
    show ?thesis
    proof (cases r)
      case (Inl e)
      with Pair have p: "process_try env img w = (Inl e, w1)" by simp
      have ht: "handler_try env job_input w = (Inl e, w1)"
        by (rule try_blocks_agree_raised [OF assms(2) p])
      show ?thesis
        by (cases "is_Exception e")
           (simp_all add: h ht p process_def calls_between_def print_exc_def)
    next
      case (Inr pq)
      obtain p q where pq: "pq = (p, q)" by (cases pq)
      with Pair Inr have p: "process_try env img w = (Inr (p, q), w1)" by simp
      from process_try_Inr [OF p] have pp: "p = output_path env w" "q = output_path env w"
        by auto
      have ht: "handler_try env job_input w =
         (case fs w1 (output_path env w) of
            None \<Rightarrow>
              (Inl (Exn ''FileNotFoundError''
                 (''[Errno 2] No such file or directory: '' @ quote (output_path env w))), w1)
          | Some content \<Rightarrow>
              (Inr [(''ply'', PStr (b64encode content)), (''filename'', PStr (output_name env w))],
               w1\<lparr>fs := (fs w1)(output_path env w := None)\<rparr>))"
        by (rule try_blocks_agree_returned [OF assms(2) p])
      show ?thesis
        by (cases "fs w1 (output_path env w)")
           (simp_all add: h ht p pp process_def calls_between_def print_exc_def)
    qed
  qed
  have up: "\<forall>upload. gr_Image_preprocess env upload = Inr img \<longrightarrow>
            calls_between w (snd (handler env job w)) =
              calls_between w (snd (upload_and_click env upload w))"
    using main by (simp add: upload_and_click_calls)
  from main up show ?thesis by blast
qed

lemma test_job_image:
  "job_image test_env (PDict [(''image'', PStr ''TQ=='')]) = Inr test_image"
  by code_simp

lemma test_handler_calls:
  "calls_between test_world (snd (handler test_env test_job test_world)) =
     [CallLoadModel,
      CallInference ''/workspace/sam-3d-objects/checkpoints/hf/pipeline.yaml'' False,
      CallRembg (''RGB'', [[77], [77], [77]]),
      CallModel 7 (NDArray [3, 1] [77, 77, 77]) (NDArray [1, 1] [True]) 42,
      CallSavePly [77, 77, 77] ''/workspace/output_run-0.ply'']"
  by code_simp

theorem entry_points_same_computation_witness:
  "calls_between test_world (snd (process test_env (Some test_image) test_world)) =
     [CallLoadModel,
      CallInference ''/workspace/sam-3d-objects/checkpoints/hf/pipeline.yaml'' False,
      CallRembg (''RGB'', [[77], [77], [77]]),
      CallModel 7 (NDArray [3, 1] [77, 77, 77]) (NDArray [1, 1] [True]) 42,
      CallSavePly [77, 77, 77] ''/workspace/output_run-0.ply''] \<and>
   fst (process test_env (Some test_image) test_world) =
     Inr (Some ''/workspace/output_run-0.ply'', Some ''/workspace/output_run-0.ply'') \<and>
   fst (handler test_env test_job test_world) =
     Inr [(''ply'', PStr ''TU1N''), (''filename'', PStr ''output_run-0.ply'')]"
proof -
  have i: "py_getitem_dict test_job ''input'' = Inr (PDict [(''image'', PStr ''TQ=='')])"
    by (simp add: py_getitem_dict_def test_job_def)
  from entry_points_same_computation [OF i test_job_image, of test_world]
  have "calls_between test_world (snd (handler test_env test_job test_world)) =
           calls_between test_world (snd (process test_env (Some test_image) test_world))"
    by blast
  then show ?thesis using test_handler_calls test_process test_handler by simp
qed

text \<open>
  The same two bytes, uploaded to the UI and sent to the handler as base64 text: the
  model is called on different arrays.
\<close>

theorem entry_points_same_computation_counterexample:
  "b64decode (PStr ''Tcg='') = Inr test_upload \<and>
   py_getitem_dict test_job_two_pixels ''input'' = Inr (PDict [(''image'', PStr ''Tcg='')]) \<and>
   filter is_CallModel
     (calls_between test_world (snd (upload_and_click test_env test_upload test_world))) =
     [CallModel 7 (NDArray [3, 2] [200, 77, 200, 77, 200, 77]) (NDArray [1, 2] [True, True]) 42] \<and>
   filter is_CallModel
     (calls_between test_world (snd (handler test_env test_job_two_pixels test_world))) =
     [CallModel 7 (NDArray [3, 2] [77, 200, 77, 200, 77, 200]) (NDArray [1, 2] [True, True]) 42]"
  by code_simp

subsection \<open>The calls of a request\<close>

lemma gt0_elementwise: "elementwise_gt0 a (gt0 a)"
  by (simp add: elementwise_gt0_def gt0_def)

lemma run_calls_model:
  assumes "run_calls env m img path evs" and "CallModel m' a k s \<in> set evs"
  shows "m' = m \<and> s = 42 \<and> alpha_mask env img k \<and>
         (\<exists>rgb arr. rgb_version env img = Inr rgb \<and> np_array env rgb = Inr arr \<and>
                     a = astype_uint8 arr)"
  using assms unfolding run_calls_def alpha_mask_def
  by (auto intro: gt0_elementwise)

lemma run_calls_rembg:
  assumes "run_calls env m img path evs" and "CallRembg i \<in> set evs"
  shows "rgb_version env img = Inr i"
  using assms unfolding run_calls_def by auto

lemma run_calls_count:
  assumes "run_calls env m img path evs"
  shows "length (filter is_CallModel evs) \<le> 1 \<and> length (filter is_CallSavePly evs) \<le> 1 \<and>
         length (filter is_CallRembg evs) \<le> 1 \<and>
         filter is_CallLoadModel evs = [] \<and> filter is_CallInference evs = []"
  using assms unfolding run_calls_def by auto

lemma lm_count:
  assumes "lm = [] \<or> model w = None \<and> lm = [CallInference c False]"
  shows "filter is_CallModel lm = [] \<and> filter is_CallSavePly lm = [] \<and>
         filter is_CallRembg lm = [] \<and> (\<forall>m a k s. CallModel m a k s \<notin> set lm) \<and>
         (\<forall>i. CallRembg i \<notin> set lm)"
  using assms by auto

lemma rgb_version_mode:
  assumes "convert_gives_rgb env" and "rgb_version env img = Inr rgb"
  shows "img_mode env rgb = ''RGB''"
  using assms by (auto simp add: convert_gives_rgb_def rgb_version_def split: if_splits)

text \<open>Every run of \<^verbatim>\<open>process\<close> on an image, and what its calls are.\<close>

lemma process_calls:
  assumes "process env (Some img) w = (r, w')"
  obtains lm evs where "calls_between w w' = CallLoadModel # lm @ evs"
    and "lm = [] \<or> model w = None \<and> lm = [CallInference (config_path env) False]"
    and "evs = [] \<or> (\<exists>m. model w' = Some m \<and> run_calls env m img (output_path env w) evs)"
proof -
  from process_run [OF assms] obtain lm evs where
    t: "trace w' = trace w @ CallLoadModel # lm @ evs" and
    r: "lm = [] \<or> model w = None \<and> lm = [CallInference (config_path env) False]"
       "evs = [] \<or> (\<exists>m. model w' = Some m \<and> run_calls env m img (output_path env w) evs)"
    by blast
  from t have "calls_between w w' = CallLoadModel # lm @ evs" by (rule calls_between_append)
  with r show ?thesis using that by blast
qed

lemma handler_calls:
  assumes "handler env job w = (r, w')"
  obtains (none) "calls_between w w' = []"
  | (some) job_input lm evs where "py_getitem_dict job ''input'' = Inr job_input"
    and "calls_between w w' = CallLoadModel # lm @ evs"
    and "lm = [] \<or> model w = None \<and> lm = [CallInference (config_path env) False]"
    and "evs = [] \<or> (\<exists>m img. model w' = Some m \<and> job_image env job_input = Inr img \<and>
                         run_calls env m img (output_path env w) evs)"
proof -
  from handler_run [OF assms] consider
    (a) "trace w' = trace w"
    | (b) job_input lm evs where "py_getitem_dict job ''input'' = Inr job_input"
       "trace w' = trace w @ CallLoadModel # lm @ evs"
       "lm = [] \<or> model w = None \<and> lm = [CallInference (config_path env) False]"
       "evs = [] \<or> (\<exists>m img. model w' = Some m \<and> job_image env job_input = Inr img \<and>
                         run_calls env m img (output_path env w) evs)"
    by blast
  then show ?thesis
  proof cases
    case a
    then have "calls_between w w' = []" by (simp add: calls_between_def)
    then show ?thesis using none by blast
  next
    case b
    from b(2) have "calls_between w w' = CallLoadModel # lm @ evs" by (rule calls_between_append)
    with b(1) b(3) b(4) show ?thesis using some by blast
  qed
qed

lemma full_calls_filter:
  assumes "cb = CallLoadModel # lm @ [CallRembg rgb, CallModel m a k 42, CallSavePly gs path]"
    and "lm = [] \<or> model w = None \<and> lm = [CallInference c False]"
  shows "filter is_CallModel cb = [CallModel m a k 42] \<and>
         filter is_CallSavePly cb = [CallSavePly gs path] \<and>
         filter is_CallRembg cb = [CallRembg rgb]"
  using assms by auto

lemma test_model_available: "model_available test_env test_world 7"
  by (simp add: model_available_def test_env_def test_world_def config_path_def
      os_path_join_def join_step_def REPO_DIR_def CHECKPOINT_DIR_def)

lemma test_output_path: "output_path test_env test_world = ''/workspace/output_run-0.ply''"
  by code_simp

lemma test_collaborators_return:
  "collaborators_return test_env 7 test_image (output_path test_env test_world) (fs test_world)
     (''RGB'', [[77], [77], [77]]) (NDArray [3, 1] [77, 77, 77]) (NDArray [1, 1] [True])
     [77, 77, 77] ((fs test_world)(''/workspace/output_run-0.ply'' \<mapsto> [77, 77, 77]))"
  unfolding collaborators_return_def test_output_path
  by (simp add: test_env_def test_image_def rgb_version_def py_last_def astype_uint8_def
      gt0_def py_getitem_dict_def)

lemma test_job_input:
  "py_getitem_dict test_job ''input'' = Inr (PDict [(''image'', PStr ''TQ=='')])"
  by (simp add: py_getitem_dict_def test_job_def)

text \<open>
  Claim C5. In every run of either entry point, a call of the model gets as its mask
  the foreground mask of the request's image: the background remover was applied to
  the RGB version of the image, and the mask is, element by element, the test
  \<^verbatim>\<open>> 0\<close> on the alpha channel (the last band) of what the remover returned, in
  the same shape. For the handler the image is the one decoded from the job. A
  request that succeeds made exactly one call of the model, with that mask. And a
  request does get that far: when the model can be loaded and every collaborator
  returns, \<^verbatim>\<open>process\<close> returns the path and \<^verbatim>\<open>handler\<close> the \<^verbatim>\<open>ply\<close> object, having
  called the model exactly once with the foreground mask.
\<close>

theorem mask_is_alpha_positive:
  "(\<forall>r w' m a k s. process env (Some img) w = (r, w') \<and>
       CallModel m a k s \<in> set (calls_between w w') \<longrightarrow> alpha_mask env img k) \<and>
   (\<forall>r w' m a k s. handler env job w = (r, w') \<and>
       CallModel m a k s \<in> set (calls_between w w') \<longrightarrow>
       (\<exists>job_input img'. py_getitem_dict job ''input'' = Inr job_input \<and>
          job_image env job_input = Inr img' \<and> alpha_mask env img' k)) \<and>
   (\<forall>pq w'. process env (Some img) w = (Inr pq, w') \<longrightarrow>
       (\<exists>m a k. filter is_CallModel (calls_between w w') = [CallModel m a k 42] \<and>
                 alpha_mask env img k)) \<and>
   (\<forall>out w'. handler env job w = (Inr out, w') \<and> is_ply_output out \<longrightarrow>
       (\<exists>job_input img' m a k. py_getitem_dict job ''input'' = Inr job_input \<and>
          job_image env job_input = Inr img' \<and>
          filter is_CallModel (calls_between w w') = [CallModel m a k 42] \<and>
          alpha_mask env img' k)) \<and>
   (\<forall>m rgb a k gs files'.
       model_available env w m \<and>
       collaborators_return env m img (output_path env w) (fs w) rgb a k gs files' \<longrightarrow>
       alpha_mask env img k \<and>
       (\<exists>w'. process env (Some img) w =
                (Inr (Some (output_path env w), Some (output_path env w)), w') \<and>
              filter is_CallModel (calls_between w w') = [CallModel m a k 42])) \<and>
   (\<forall>job_input img' m rgb a k gs files' content.
       py_getitem_dict job ''input'' = Inr job_input \<and>
       job_image env job_input = Inr img' \<and>
       model_available env w m \<and>
       collaborators_return env m img' (output_path env w) (fs w) rgb a k gs files' \<and>
       files' (output_path env w) = Some content \<longrightarrow>
       alpha_mask env img' k \<and>
       (\<exists>out w'. handler env job w = (Inr out, w') \<and> is_ply_output out \<and>
                  filter is_CallModel (calls_between w w') = [CallModel m a k 42]))"
proof (intro conjI allI impI)
  fix r w' m a k s
  assume a: "process env (Some img) w = (r, w') \<and> CallModel m a k s \<in> set (calls_between w w')"
  then have run: "process env (Some img) w = (r, w')" by simp
  from run obtain lm evs where cb: "calls_between w w' = CallLoadModel # lm @ evs"
    and lm: "lm = [] \<or> model w = None \<and> lm = [CallInference (config_path env) False]"
    and evs: "evs = [] \<or> (\<exists>m. model w' = Some m \<and> run_calls env m img (output_path env w) evs)"
    by (rule process_calls)
  from a cb lm_count [OF lm] have mem: "CallModel m a k s \<in> set evs" by auto
  with evs obtain m0 where "run_calls env m0 img (output_path env w) evs" by auto
  from run_calls_model [OF this mem] show "alpha_mask env img k" by simp
next
  fix r w' m a k s
  assume a: "handler env job w = (r, w') \<and> CallModel m a k s \<in> set (calls_between w w')"
  then have run: "handler env job w = (r, w')" by simp
  from run show "\<exists>job_input img'. py_getitem_dict job ''input'' = Inr job_input \<and>
          job_image env job_input = Inr img' \<and> alpha_mask env img' k"
  proof (cases rule: handler_calls)
    case none
    with a show ?thesis by simp
  next
    case (some job_input lm evs)
    from a some(2) lm_count [OF some(3)] have mem: "CallModel m a k s \<in> set evs" by auto
    with some(4) obtain m0 img' where ji: "job_image env job_input = Inr img'"
      and rc: "run_calls env m0 img' (output_path env w) evs" by auto
    from run_calls_model [OF rc mem] have "alpha_mask env img' k" by simp
    with some(1) ji show ?thesis by blast
  qed
next
  fix pq w'
  assume "process env (Some img) w = (Inr pq, w')"
  from process_Inr_calls [OF this] obtain lm m rgb a k gs where
    cb: "calls_between w w' =
           CallLoadModel # lm @ [CallRembg rgb, CallModel m a k 42,
                                 CallSavePly gs (output_path env w)]" and
    lm: "lm = [] \<or> model w = None \<and> lm = [CallInference (config_path env) False]" and
    cr: "collaborators_return env m img (output_path env w) (fs w) rgb a k gs (fs w')"
    by blast
  from full_calls_filter [OF cb lm] collaborators_return_mask [OF cr]
  show "\<exists>m a k. filter is_CallModel (calls_between w w') = [CallModel m a k 42] \<and>
                 alpha_mask env img k" by blast
next
  fix out w'
  assume "handler env job w = (Inr out, w') \<and> is_ply_output out"
  then have h: "handler env job w = (Inr out, w')" and o: "is_ply_output out" by simp_all
  from handler_ply_calls [OF h o] obtain job_input img' lm m rgb a k gs files' where
    ji: "py_getitem_dict job ''input'' = Inr job_input" "job_image env job_input = Inr img'" and
    cb: "calls_between w w' =
           CallLoadModel # lm @ [CallRembg rgb, CallModel m a k 42,
                                 CallSavePly gs (output_path env w)]" and
    lm: "lm = [] \<or> model w = None \<and> lm = [CallInference (config_path env) False]" and
    cr: "collaborators_return env m img' (output_path env w) (fs w) rgb a k gs files'"
    by blast
  from full_calls_filter [OF cb lm] collaborators_return_mask [OF cr] ji
  show "\<exists>job_input img' m a k. py_getitem_dict job ''input'' = Inr job_input \<and>
          job_image env job_input = Inr img' \<and>
          filter is_CallModel (calls_between w w') = [CallModel m a k 42] \<and>
          alpha_mask env img' k" by blast
next
  fix m rgb a k gs files'
  assume a: "model_available env w m \<and>
       collaborators_return env m img (output_path env w) (fs w) rgb a k gs files'"
  then have ma: "model_available env w m"
    and cr: "collaborators_return env m img (output_path env w) (fs w) rgb a k gs files'"
    by simp_all
  show "alpha_mask env img k" by (rule collaborators_return_mask [OF cr])
  from process_progress [OF ma cr] obtain lm w' where
    p: "process env (Some img) w =
          (Inr (Some (output_path env w), Some (output_path env w)), w')" and
    cb: "calls_between w w' =
           CallLoadModel # lm @ [CallRembg rgb, CallModel m a k 42,
                                 CallSavePly gs (output_path env w)]" and
    lm: "lm = [] \<or> model w = None \<and> lm = [CallInference (config_path env) False]"
    by blast
  from full_calls_filter [OF cb lm] p
  show "\<exists>w'. process env (Some img) w =
                (Inr (Some (output_path env w), Some (output_path env w)), w') \<and>
              filter is_CallModel (calls_between w w') = [CallModel m a k 42]" by blast
next
  fix job_input img' m rgb a k gs files' content
  assume a: "py_getitem_dict job ''input'' = Inr job_input \<and>
       job_image env job_input = Inr img' \<and>
       model_available env w m \<and>
       collaborators_return env m img' (output_path env w) (fs w) rgb a k gs files' \<and>
       files' (output_path env w) = Some content"
  then have ji: "py_getitem_dict job ''input'' = Inr job_input"
    and im: "job_image env job_input = Inr img'"
    and ma: "model_available env w m"
    and cr: "collaborators_return env m img' (output_path env w) (fs w) rgb a k gs files'"
    and fc: "files' (output_path env w) = Some content"
    by simp_all
  show "alpha_mask env img' k" by (rule collaborators_return_mask [OF cr])
  from handler_progress [OF ji im ma cr fc] obtain lm w' where
    h: "handler env job w =
             (Inr [(''ply'', PStr (b64encode content)),
                   (''filename'', PStr (output_name env w))], w')" and
    cb: "calls_between w w' =
           CallLoadModel # lm @ [CallRembg rgb, CallModel m a k 42,
                                 CallSavePly gs (output_path env w)]" and
    lm: "lm = [] \<or> model w = None \<and> lm = [CallInference (config_path env) False]"
    by blast
  have "is_ply_output [(''ply'', PStr (b64encode content)),
                       (''filename'', PStr (output_name env w))]" by simp
  with full_calls_filter [OF cb lm] h
  show "\<exists>out w'. handler env job w = (Inr out, w') \<and> is_ply_output out \<and>
                  filter is_CallModel (calls_between w w') = [CallModel m a k 42]" by blast
qed

lemma test_process_calls:
  "calls_between test_world (snd (process test_env (Some test_image) test_world)) =
     [CallLoadModel,
      CallInference ''/workspace/sam-3d-objects/checkpoints/hf/pipeline.yaml'' False,
      CallRembg (''RGB'', [[77], [77], [77]]),
      CallModel 7 (NDArray [3, 1] [77, 77, 77]) (NDArray [1, 1] [True]) 42,
      CallSavePly [77, 77, 77] ''/workspace/output_run-0.ply'']"
  by code_simp

theorem mask_is_alpha_positive_witness:
  "alpha_mask test_env test_image (NDArray [1, 1] [True]) \<and>
   (\<exists>w'. process test_env (Some test_image) test_world =
            (Inr (Some (output_path test_env test_world),
                  Some (output_path test_env test_world)), w') \<and>
          filter is_CallModel (calls_between test_world w') =
            [CallModel 7 (NDArray [3, 1] [77, 77, 77]) (NDArray [1, 1] [True]) 42]) \<and>
   (\<exists>out w'. handler test_env test_job test_world = (Inr out, w') \<and> is_ply_output out \<and>
          filter is_CallModel (calls_between test_world w') =
            [CallModel 7 (NDArray [3, 1] [77, 77, 77]) (NDArray [1, 1] [True]) 42]) \<and>
   CallModel 7 (NDArray [3, 1] [77, 77, 77]) (NDArray [1, 1] [True]) 42
     \<in> set (calls_between test_world (snd (handler test_env test_job test_world)))"
proof -
  note t = mask_is_alpha_positive [of test_env test_image test_world test_job]
  have fc: "((fs test_world)(''/workspace/output_run-0.ply'' \<mapsto> [77, 77, 77]))
              (output_path test_env test_world) = Some [77, 77, 77]"
    by (simp add: test_output_path)
  from t test_model_available test_collaborators_return
  have 1: "alpha_mask test_env test_image (NDArray [1, 1] [True]) \<and>
     (\<exists>w'. process test_env (Some test_image) test_world =
            (Inr (Some (output_path test_env test_world),
                  Some (output_path test_env test_world)), w') \<and>
          filter is_CallModel (calls_between test_world w') =
            [CallModel 7 (NDArray [3, 1] [77, 77, 77]) (NDArray [1, 1] [True]) 42])"
    by blast
  from t test_job_input test_job_image test_model_available test_collaborators_return fc
  have 2: "\<exists>out w'. handler test_env test_job test_world = (Inr out, w') \<and> is_ply_output out \<and>
          filter is_CallModel (calls_between test_world w') =
            [CallModel 7 (NDArray [3, 1] [77, 77, 77]) (NDArray [1, 1] [True]) 42]"
    by blast
  have 3: "CallModel 7 (NDArray [3, 1] [77, 77, 77]) (NDArray [1, 1] [True]) 42
     \<in> set (calls_between test_world (snd (handler test_env test_job test_world)))"
    by (simp add: test_handler_calls)
  from 1 2 3 show ?thesis by blast
qed

lemma full_calls_end:
  assumes "cb = CallLoadModel # lm @ [CallRembg rgb, CallModel m a k 42, CallSavePly gs path]"
    and "lm = [] \<or> model w = None \<and> lm = [CallInference c False]"
    and "collaborators_return env m img path files rgb a k gs files'"
  shows "ends_with_call_and_save env path cb"
proof -
  from collaborators_return_save [OF assms(3)] obtain res where
    cm: "call_model env m a k 42 = Inr res" "py_getitem_dict res ''gs'' = Inr gs" by blast
  have cb: "cb = (CallLoadModel # lm @ [CallRembg rgb]) @ [CallModel m a k 42, CallSavePly gs path]"
    using assms(1) by simp
  have nf: "filter is_CallModel (CallLoadModel # lm @ [CallRembg rgb]) = []"
           "filter is_CallSavePly (CallLoadModel # lm @ [CallRembg rgb]) = []"
    using assms(2) by auto
  from cb nf cm show ?thesis unfolding ends_with_call_and_save_def by blast
qed

lemma process_success_calls:
  assumes "process env (Some img) w = (Inr pq, w')"
  shows "ends_with_call_and_save env (output_path env w) (calls_between w w')"
proof -
  from process_Inr_calls [OF assms] obtain lm m rgb a k gs where
    cb: "calls_between w w' =
           CallLoadModel # lm @ [CallRembg rgb, CallModel m a k 42,
                                 CallSavePly gs (output_path env w)]" and
    lm: "lm = [] \<or> model w = None \<and> lm = [CallInference (config_path env) False]" and
    cr: "collaborators_return env m img (output_path env w) (fs w) rgb a k gs (fs w')"
    by blast
  show ?thesis by (rule full_calls_end [OF cb lm cr])
qed

lemma handler_success_calls:
  assumes "handler env job w = (Inr out, w')" and "is_ply_output out"
  shows "ends_with_call_and_save env (output_path env w) (calls_between w w')"
proof -
  from handler_ply_calls [OF assms] obtain img lm m rgb a k gs files' where
    cb: "calls_between w w' =
           CallLoadModel # lm @ [CallRembg rgb, CallModel m a k 42,
                                 CallSavePly gs (output_path env w)]" and
    lm: "lm = [] \<or> model w = None \<and> lm = [CallInference (config_path env) False]" and
    cr: "collaborators_return env m img (output_path env w) (fs w) rgb a k gs files'"
    by blast
  show ?thesis by (rule full_calls_end [OF cb lm cr])
qed

lemma calls_count:
  assumes "cb = CallLoadModel # lm @ evs"
    and "lm = [] \<or> model w = None \<and> lm = [CallInference c False]"
    and "evs = [] \<or> (\<exists>m img. P m img \<and> run_calls env m img path evs)"
  shows "length (filter is_CallModel cb) \<le> 1 \<and> length (filter is_CallSavePly cb) \<le> 1"
proof (cases "evs = []")
  case True
  with assms(1) lm_count [OF assms(2)] show ?thesis by simp
next
  case False
  with assms(3) obtain m img where "run_calls env m img path evs" by blast
  from run_calls_count [OF this] assms(1) lm_count [OF assms(2)] show ?thesis by simp
qed

text \<open>
  Claim C6. A request calls the inference object at most once and \<^verbatim>\<open>save_ply\<close> at most
  once, whatever happens (so there is no retry). A request that succeeds (\<^verbatim>\<open>process\<close>
  returns the paths, \<^verbatim>\<open>handler\<close> returns the \<^verbatim>\<open>ply\<close> object) made exactly one call of
  the inference object, with seed 42, then exactly one \<^verbatim>\<open>save_ply\<close>, on the \<^verbatim>\<open>gs\<close>
  entry of what that call returned and on the output path, as its last two calls.
  Every call of the inference object is on the loaded model object, with the image
  array and the mask array of the request and the seed 42. And each entry point does
  make the call: when the model can be loaded and every collaborator returns,
  \<^verbatim>\<open>process\<close> returns the path and \<^verbatim>\<open>handler\<close> the \<^verbatim>\<open>ply\<close> object, each having made
  exactly one call of the inference object, on the image array, the mask and seed
  42, and exactly one \<^verbatim>\<open>save_ply\<close>, on the object returned and the output path.
\<close>

theorem one_inference_call_per_request:
  "(\<forall>r w'. process env (Some img) w = (r, w') \<longrightarrow>
      length (filter is_CallModel (calls_between w w')) \<le> 1 \<and>
      length (filter is_CallSavePly (calls_between w w')) \<le> 1 \<and>
      (\<forall>m a k s. CallModel m a k s \<in> set (calls_between w w') \<longrightarrow>
         model w' = Some m \<and> s = 42 \<and> alpha_mask env img k \<and>
         (\<exists>rgb arr. rgb_version env img = Inr rgb \<and> np_array env rgb = Inr arr \<and>
                     a = astype_uint8 arr)) \<and>
      (\<forall>pq. r = Inr pq \<longrightarrow>
         ends_with_call_and_save env (output_path env w) (calls_between w w'))) \<and>
   (\<forall>r w'. handler env job w = (r, w') \<longrightarrow>
      length (filter is_CallModel (calls_between w w')) \<le> 1 \<and>
      length (filter is_CallSavePly (calls_between w w')) \<le> 1 \<and>
      (\<forall>m a k s. CallModel m a k s \<in> set (calls_between w w') \<longrightarrow>
         model w' = Some m \<and> s = 42 \<and>
         (\<exists>job_input img' rgb arr. py_getitem_dict job ''input'' = Inr job_input \<and>
            job_image env job_input = Inr img' \<and> alpha_mask env img' k \<and>
            rgb_version env img' = Inr rgb \<and> np_array env rgb = Inr arr \<and>
            a = astype_uint8 arr)) \<and>
      (\<forall>out. r = Inr out \<and> is_ply_output out \<longrightarrow>
         ends_with_call_and_save env (output_path env w) (calls_between w w'))) \<and>
   (\<forall>m rgb a k gs files'.
      model_available env w m \<and>
      collaborators_return env m img (output_path env w) (fs w) rgb a k gs files' \<longrightarrow>
      (\<exists>w'. process env (Some img) w =
               (Inr (Some (output_path env w), Some (output_path env w)), w') \<and>
             filter is_CallModel (calls_between w w') = [CallModel m a k 42] \<and>
             filter is_CallSavePly (calls_between w w') =
               [CallSavePly gs (output_path env w)] \<and>
             ends_with_call_and_save env (output_path env w) (calls_between w w'))) \<and>
   (\<forall>job_input img' m rgb a k gs files' content.
      py_getitem_dict job ''input'' = Inr job_input \<and>
      job_image env job_input = Inr img' \<and>
      model_available env w m \<and>
      collaborators_return env m img' (output_path env w) (fs w) rgb a k gs files' \<and>
      files' (output_path env w) = Some content \<longrightarrow>
      (\<exists>out w'. handler env job w = (Inr out, w') \<and> is_ply_output out \<and>
             filter is_CallModel (calls_between w w') = [CallModel m a k 42] \<and>
             filter is_CallSavePly (calls_between w w') =
               [CallSavePly gs (output_path env w)] \<and>
             ends_with_call_and_save env (output_path env w) (calls_between w w')))"
proof (intro conjI allI impI)
  fix r w'
  assume run: "process env (Some img) w = (r, w')"
  from run obtain lm evs where cb: "calls_between w w' = CallLoadModel # lm @ evs"
    and lm: "lm = [] \<or> model w = None \<and> lm = [CallInference (config_path env) False]"
    and evs: "evs = [] \<or> (\<exists>m. model w' = Some m \<and> run_calls env m img (output_path env w) evs)"
    by (rule process_calls)
  from evs have evs': "evs = [] \<or> (\<exists>m i. (model w' = Some m \<and> i = img) \<and>
      run_calls env m i (output_path env w) evs)" by blast
  from calls_count [OF cb lm evs']
  show "length (filter is_CallModel (calls_between w w')) \<le> 1"
    and "length (filter is_CallSavePly (calls_between w w')) \<le> 1" by simp_all
  {
    fix m a k s
    assume "CallModel m a k s \<in> set (calls_between w w')"
    with cb lm_count [OF lm] have mem: "CallModel m a k s \<in> set evs" by auto
    with evs obtain m0 where m0: "model w' = Some m0"
      and rc: "run_calls env m0 img (output_path env w) evs" by auto
    from run_calls_model [OF rc mem] m0
    have "model w' = Some m \<and> s = 42 \<and> alpha_mask env img k \<and>
         (\<exists>rgb arr. rgb_version env img = Inr rgb \<and> np_array env rgb = Inr arr \<and>
                     a = astype_uint8 arr)" by simp
  }
  then show "\<And>m a k s. CallModel m a k s \<in> set (calls_between w w') \<Longrightarrow> model w' = Some m"
    and "\<And>m a k s. CallModel m a k s \<in> set (calls_between w w') \<Longrightarrow> s = 42"
    and "\<And>m a k s. CallModel m a k s \<in> set (calls_between w w') \<Longrightarrow> alpha_mask env img k"
    and "\<And>m a k s. CallModel m a k s \<in> set (calls_between w w') \<Longrightarrow>
         \<exists>rgb arr. rgb_version env img = Inr rgb \<and> np_array env rgb = Inr arr \<and>
                     a = astype_uint8 arr"
    by blast+
  fix pq
  assume "r = Inr pq"
  with run have "process env (Some img) w = (Inr pq, w')" by simp
  then show "ends_with_call_and_save env (output_path env w) (calls_between w w')"
    by (rule process_success_calls)
next
  fix r w'
  assume run: "handler env job w = (r, w')"
  have cnt: "length (filter is_CallModel (calls_between w w')) \<le> 1 \<and>
      length (filter is_CallSavePly (calls_between w w')) \<le> 1"
    using run
  proof (cases rule: handler_calls)
    case none
    then show ?thesis by simp
  next
    case (some job_input lm evs)
    from some(4) have evs': "evs = [] \<or> (\<exists>m i. (model w' = Some m \<and> job_image env job_input = Inr i) \<and>
      run_calls env m i (output_path env w) evs)" by blast
    from calls_count [OF some(2) some(3) evs'] show ?thesis .
  qed
  then show "length (filter is_CallModel (calls_between w w')) \<le> 1"
    and "length (filter is_CallSavePly (calls_between w w')) \<le> 1" by simp_all
  {
    fix m a k s
    assume a: "CallModel m a k s \<in> set (calls_between w w')"
    from run have "model w' = Some m \<and> s = 42 \<and>
         (\<exists>job_input img' rgb arr. py_getitem_dict job ''input'' = Inr job_input \<and>
            job_image env job_input = Inr img' \<and> alpha_mask env img' k \<and>
            rgb_version env img' = Inr rgb \<and> np_array env rgb = Inr arr \<and>
            a = astype_uint8 arr)"
    proof (cases rule: handler_calls)
      case none
      with a show ?thesis by simp
    next
      case (some job_input lm evs)
      from a some(2) lm_count [OF some(3)] have mem: "CallModel m a k s \<in> set evs" by auto
      with some(4) obtain m0 img' where m0: "model w' = Some m0"
        and ji: "job_image env job_input = Inr img'"
        and rc: "run_calls env m0 img' (output_path env w) evs" by auto
      from run_calls_model [OF rc mem] m0 some(1) ji show ?thesis by blast
    qed
  }
  then show "\<And>m a k s. CallModel m a k s \<in> set (calls_between w w') \<Longrightarrow> model w' = Some m"
    and "\<And>m a k s. CallModel m a k s \<in> set (calls_between w w') \<Longrightarrow> s = 42"
    and "\<And>m a k s. CallModel m a k s \<in> set (calls_between w w') \<Longrightarrow>
         \<exists>job_input img' rgb arr. py_getitem_dict job ''input'' = Inr job_input \<and>
            job_image env job_input = Inr img' \<and> alpha_mask env img' k \<and>
            rgb_version env img' = Inr rgb \<and> np_array env rgb = Inr arr \<and>
            a = astype_uint8 arr"
    by blast+
  fix out
  assume o: "r = Inr out \<and> is_ply_output out"
  with run have "handler env job w = (Inr out, w')" by simp
  then show "ends_with_call_and_save env (output_path env w) (calls_between w w')"
    using o by (simp add: handler_success_calls)
next
  fix m rgb a k gs files'
  assume a: "model_available env w m \<and>
      collaborators_return env m img (output_path env w) (fs w) rgb a k gs files'"
  then have ma: "model_available env w m"
    and cr: "collaborators_return env m img (output_path env w) (fs w) rgb a k gs files'"
    by simp_all
  from process_progress [OF ma cr] obtain lm w' where
    p: "process env (Some img) w =
          (Inr (Some (output_path env w), Some (output_path env w)), w')" and
    cb: "calls_between w w' =
           CallLoadModel # lm @ [CallRembg rgb, CallModel m a k 42,
                                 CallSavePly gs (output_path env w)]" and
    lm: "lm = [] \<or> model w = None \<and> lm = [CallInference (config_path env) False]"
    by blast
  from full_calls_filter [OF cb lm] full_calls_end [OF cb lm cr] p
  show "\<exists>w'. process env (Some img) w =
               (Inr (Some (output_path env w), Some (output_path env w)), w') \<and>
             filter is_CallModel (calls_between w w') = [CallModel m a k 42] \<and>
             filter is_CallSavePly (calls_between w w') =
               [CallSavePly gs (output_path env w)] \<and>
             ends_with_call_and_save env (output_path env w) (calls_between w w')"
    by blast
next
  fix job_input img' m rgb a k gs files' content
  assume a: "py_getitem_dict job ''input'' = Inr job_input \<and>
      job_image env job_input = Inr img' \<and>
      model_available env w m \<and>
      collaborators_return env m img' (output_path env w) (fs w) rgb a k gs files' \<and>
      files' (output_path env w) = Some content"
  then have ji: "py_getitem_dict job ''input'' = Inr job_input"
    and im: "job_image env job_input = Inr img'"
    and ma: "model_available env w m"
    and cr: "collaborators_return env m img' (output_path env w) (fs w) rgb a k gs files'"
    and fc: "files' (output_path env w) = Some content"
    by simp_all
  from handler_progress [OF ji im ma cr fc] obtain lm w' where
    h: "handler env job w =
             (Inr [(''ply'', PStr (b64encode content)),
                   (''filename'', PStr (output_name env w))], w')" and
    cb: "calls_between w w' =
           CallLoadModel # lm @ [CallRembg rgb, CallModel m a k 42,
                                 CallSavePly gs (output_path env w)]" and
    lm: "lm = [] \<or> model w = None \<and> lm = [CallInference (config_path env) False]"
    by blast
  have "is_ply_output [(''ply'', PStr (b64encode content)),
                       (''filename'', PStr (output_name env w))]" by simp
  with full_calls_filter [OF cb lm] full_calls_end [OF cb lm cr] h
  show "\<exists>out w'. handler env job w = (Inr out, w') \<and> is_ply_output out \<and>
             filter is_CallModel (calls_between w w') = [CallModel m a k 42] \<and>
             filter is_CallSavePly (calls_between w w') =
               [CallSavePly gs (output_path env w)] \<and>
             ends_with_call_and_save env (output_path env w) (calls_between w w')"
    by blast
qed

lemma test_files_after:
  "((fs test_world)(''/workspace/output_run-0.ply'' \<mapsto> [77, 77, 77]))
     (output_path test_env test_world) = Some [77, 77, 77]"
  by (simp add: test_output_path)

theorem one_inference_call_per_request_witness:
  "(\<exists>w'. process test_env (Some test_image) test_world =
            (Inr (Some (output_path test_env test_world),
                  Some (output_path test_env test_world)), w') \<and>
          filter is_CallModel (calls_between test_world w') =
            [CallModel 7 (NDArray [3, 1] [77, 77, 77]) (NDArray [1, 1] [True]) 42] \<and>
          filter is_CallSavePly (calls_between test_world w') =
            [CallSavePly [77, 77, 77] (output_path test_env test_world)]) \<and>
   (\<exists>out w'. handler test_env test_job test_world = (Inr out, w') \<and> is_ply_output out \<and>
          filter is_CallModel (calls_between test_world w') =
            [CallModel 7 (NDArray [3, 1] [77, 77, 77]) (NDArray [1, 1] [True]) 42] \<and>
          filter is_CallSavePly (calls_between test_world w') =
            [CallSavePly [77, 77, 77] (output_path test_env test_world)]) \<and>
   length (filter is_CallModel
     (calls_between test_world (snd (process test_env (Some test_image) test_world)))) \<le> 1 \<and>
   length (filter is_CallModel
     (calls_between test_world (snd (handler test_env test_job test_world)))) \<le> 1 \<and>
   ends_with_call_and_save test_env (output_path test_env test_world)
     (calls_between test_world (snd (handler test_env test_job test_world)))"
proof -
  note t = one_inference_call_per_request [of test_env test_image test_world test_job]
  note tp = t [THEN conjunct2, THEN conjunct2, THEN conjunct1, rule_format,
    OF conjI [OF test_model_available test_collaborators_return]]
  note th = t [THEN conjunct2, THEN conjunct2, THEN conjunct2, rule_format,
    OF conjI [OF test_job_input conjI [OF test_job_image conjI [OF test_model_available
      conjI [OF test_collaborators_return test_files_after]]]]]
  from tp
  have 1: "\<exists>w'. process test_env (Some test_image) test_world =
            (Inr (Some (output_path test_env test_world),
                  Some (output_path test_env test_world)), w') \<and>
          filter is_CallModel (calls_between test_world w') =
            [CallModel 7 (NDArray [3, 1] [77, 77, 77]) (NDArray [1, 1] [True]) 42] \<and>
          filter is_CallSavePly (calls_between test_world w') =
            [CallSavePly [77, 77, 77] (output_path test_env test_world)]"
    by blast
  from th
  have 2: "\<exists>out w'. handler test_env test_job test_world = (Inr out, w') \<and> is_ply_output out \<and>
          filter is_CallModel (calls_between test_world w') =
            [CallModel 7 (NDArray [3, 1] [77, 77, 77]) (NDArray [1, 1] [True]) 42] \<and>
          filter is_CallSavePly (calls_between test_world w') =
            [CallSavePly [77, 77, 77] (output_path test_env test_world)]"
    by blast
  have runp: "process test_env (Some test_image) test_world =
     (fst (process test_env (Some test_image) test_world),
      snd (process test_env (Some test_image) test_world))" by simp
  have runh: "handler test_env test_job test_world =
     (Inr [(''ply'', PStr ''TU1N''), (''filename'', PStr ''output_run-0.ply'')],
      snd (handler test_env test_job test_world))"
    using test_handler by (simp add: prod_eq_iff)
  have ply: "is_ply_output [(''ply'', PStr ''TU1N''), (''filename'', PStr ''output_run-0.ply'')]"
    by simp
  from t runp
  have 3: "length (filter is_CallModel
     (calls_between test_world (snd (process test_env (Some test_image) test_world)))) \<le> 1"
    by blast
  note tr = t [THEN conjunct2, THEN conjunct1, THEN spec, THEN spec, THEN mp, OF runh]
  from tr
  have 4: "length (filter is_CallModel
     (calls_between test_world (snd (handler test_env test_job test_world)))) \<le> 1"
    by (rule conjunct1)
  have 5: "ends_with_call_and_save test_env (output_path test_env test_world)
     (calls_between test_world (snd (handler test_env test_job test_world)))"
    by (rule tr [THEN conjunct2, THEN conjunct2, THEN conjunct2, THEN spec, THEN mp,
          OF conjI [OF refl ply]])
  from 1 2 3 4 5 show ?thesis by blast
qed

lemma collaborators_return_rgb_array:
  assumes "convert_gives_rgb env"
    and "collaborators_return env m img path files rgb a k gs files'"
  shows "rgb_version env img = Inr rgb \<and> img_mode env rgb = ''RGB'' \<and>
         rgb_image_array env img a"
proof -
  from collaborators_return_rgb [OF assms(2)] obtain arr where
    v: "rgb_version env img = Inr rgb" "np_array env rgb = Inr arr" "a = astype_uint8 arr"
    by blast
  have md: "img_mode env rgb = ''RGB''" by (rule rgb_version_mode [OF assms(1) v(1)])
  with v show ?thesis unfolding rgb_image_array_def by blast
qed

text \<open>
  Claim C10. Whatever the mode of the input image, both entry points work on its RGB
  version only (the image itself when its mode is RGB, \<^verbatim>\<open>convert("RGB")\<close> of it
  otherwise). Given that \<^verbatim>\<open>convert("RGB")\<close> returns an image of mode RGB, in every run
  the background remover is called on an image of mode RGB, the RGB version of the
  input, and the image array a call of the model gets is the \<^verbatim>\<open>uint8\<close> array of that
  RGB image. A request that succeeds made exactly one call of the remover and one of
  the model, on these. And each entry point does get that far: when the model can be
  loaded and every collaborator returns, \<^verbatim>\<open>process\<close> returns the path and \<^verbatim>\<open>handler\<close>
  the \<^verbatim>\<open>ply\<close> object, having called the remover once, on the RGB version of the
  input, of mode RGB, and the model once, on the \<^verbatim>\<open>uint8\<close> array of that image.
\<close>

theorem rgb_before_any_use:
  assumes "convert_gives_rgb env"
  shows
  "(\<forall>r w'. process env (Some img) w = (r, w') \<longrightarrow>
      (\<forall>i. CallRembg i \<in> set (calls_between w w') \<longrightarrow>
         rgb_version env img = Inr i \<and> img_mode env i = ''RGB'') \<and>
      (\<forall>m a k s. CallModel m a k s \<in> set (calls_between w w') \<longrightarrow>
         rgb_image_array env img a)) \<and>
   (\<forall>r w'. handler env job w = (r, w') \<longrightarrow>
      (\<forall>i. CallRembg i \<in> set (calls_between w w') \<longrightarrow>
         img_mode env i = ''RGB'' \<and>
         (\<exists>job_input img'. py_getitem_dict job ''input'' = Inr job_input \<and>
            job_image env job_input = Inr img' \<and> rgb_version env img' = Inr i)) \<and>
      (\<forall>m a k s. CallModel m a k s \<in> set (calls_between w w') \<longrightarrow>
         (\<exists>job_input img'. py_getitem_dict job ''input'' = Inr job_input \<and>
            job_image env job_input = Inr img' \<and> rgb_image_array env img' a))) \<and>
   (\<forall>pq w'. process env (Some img) w = (Inr pq, w') \<longrightarrow>
      (\<exists>rgb m a k. filter is_CallRembg (calls_between w w') = [CallRembg rgb] \<and>
         filter is_CallModel (calls_between w w') = [CallModel m a k 42] \<and>
         rgb_version env img = Inr rgb \<and> img_mode env rgb = ''RGB'' \<and>
         rgb_image_array env img a)) \<and>
   (\<forall>out w'. handler env job w = (Inr out, w') \<and> is_ply_output out \<longrightarrow>
      (\<exists>job_input img' rgb m a k. py_getitem_dict job ''input'' = Inr job_input \<and>
         job_image env job_input = Inr img' \<and>
         filter is_CallRembg (calls_between w w') = [CallRembg rgb] \<and>
         filter is_CallModel (calls_between w w') = [CallModel m a k 42] \<and>
         rgb_version env img' = Inr rgb \<and> img_mode env rgb = ''RGB'' \<and>
         rgb_image_array env img' a)) \<and>
   (\<forall>m rgb a k gs files'.
      model_available env w m \<and>
      collaborators_return env m img (output_path env w) (fs w) rgb a k gs files' \<longrightarrow>
      rgb_version env img = Inr rgb \<and> img_mode env rgb = ''RGB'' \<and>
      rgb_image_array env img a \<and>
      (\<exists>w'. process env (Some img) w =
               (Inr (Some (output_path env w), Some (output_path env w)), w') \<and>
             filter is_CallRembg (calls_between w w') = [CallRembg rgb] \<and>
             filter is_CallModel (calls_between w w') = [CallModel m a k 42])) \<and>
   (\<forall>job_input img' m rgb a k gs files' content.
      py_getitem_dict job ''input'' = Inr job_input \<and>
      job_image env job_input = Inr img' \<and>
      model_available env w m \<and>
      collaborators_return env m img' (output_path env w) (fs w) rgb a k gs files' \<and>
      files' (output_path env w) = Some content \<longrightarrow>
      rgb_version env img' = Inr rgb \<and> img_mode env rgb = ''RGB'' \<and>
      rgb_image_array env img' a \<and>
      (\<exists>out w'. handler env job w = (Inr out, w') \<and> is_ply_output out \<and>
             filter is_CallRembg (calls_between w w') = [CallRembg rgb] \<and>
             filter is_CallModel (calls_between w w') = [CallModel m a k 42]))"
proof -
  have p_all: "\<forall>r w'. process env (Some img) w = (r, w') \<longrightarrow>
      (\<forall>i. CallRembg i \<in> set (calls_between w w') \<longrightarrow>
         rgb_version env img = Inr i \<and> img_mode env i = ''RGB'') \<and>
      (\<forall>m a k s. CallModel m a k s \<in> set (calls_between w w') \<longrightarrow>
         rgb_image_array env img a)"
  proof (intro conjI allI impI)
    fix r w' i
    assume run: "process env (Some img) w = (r, w')"
      and a: "CallRembg i \<in> set (calls_between w w')"
    from run obtain lm evs where cb: "calls_between w w' = CallLoadModel # lm @ evs"
      and lm: "lm = [] \<or> model w = None \<and> lm = [CallInference (config_path env) False]"
      and evs: "evs = [] \<or> (\<exists>m. model w' = Some m \<and> run_calls env m img (output_path env w) evs)"
      by (rule process_calls)
    from a cb lm_count [OF lm] have mem: "CallRembg i \<in> set evs" by auto
    with evs obtain m0 where rc: "run_calls env m0 img (output_path env w) evs" by auto
    from run_calls_rembg [OF rc mem] show "rgb_version env img = Inr i" .
    then show "img_mode env i = ''RGB''" by (rule rgb_version_mode [OF assms])
  next
    fix r w' m a k s
    assume run: "process env (Some img) w = (r, w')"
      and a: "CallModel m a k s \<in> set (calls_between w w')"
    from run obtain lm evs where cb: "calls_between w w' = CallLoadModel # lm @ evs"
      and lm: "lm = [] \<or> model w = None \<and> lm = [CallInference (config_path env) False]"
      and evs: "evs = [] \<or> (\<exists>m. model w' = Some m \<and> run_calls env m img (output_path env w) evs)"
      by (rule process_calls)
    from a cb lm_count [OF lm] have mem: "CallModel m a k s \<in> set evs" by auto
    with evs obtain m0 where rc: "run_calls env m0 img (output_path env w) evs" by auto
    from run_calls_model [OF rc mem] obtain rgb arr where
      "rgb_version env img = Inr rgb" "np_array env rgb = Inr arr" "a = astype_uint8 arr"
      by blast
    with rgb_version_mode [OF assms] show "rgb_image_array env img a"
      unfolding rgb_image_array_def by blast
  qed
  have h_all: "\<forall>r w'. handler env job w = (r, w') \<longrightarrow>
      (\<forall>i. CallRembg i \<in> set (calls_between w w') \<longrightarrow>
         img_mode env i = ''RGB'' \<and>
         (\<exists>job_input img'. py_getitem_dict job ''input'' = Inr job_input \<and>
            job_image env job_input = Inr img' \<and> rgb_version env img' = Inr i)) \<and>
      (\<forall>m a k s. CallModel m a k s \<in> set (calls_between w w') \<longrightarrow>
         (\<exists>job_input img'. py_getitem_dict job ''input'' = Inr job_input \<and>
            job_image env job_input = Inr img' \<and> rgb_image_array env img' a))"
  proof (intro conjI allI impI)
    fix r w' i
    assume run: "handler env job w = (r, w')"
      and a: "CallRembg i \<in> set (calls_between w w')"
    from run have "img_mode env i = ''RGB'' \<and>
           (\<exists>job_input img'. py_getitem_dict job ''input'' = Inr job_input \<and>
              job_image env job_input = Inr img' \<and> rgb_version env img' = Inr i)"
    proof (cases rule: handler_calls)
      case none
      with a show ?thesis by simp
    next
      case (some job_input lm evs)
      from a some(2) lm_count [OF some(3)] have mem: "CallRembg i \<in> set evs" by auto
      with some(4) obtain m0 img' where ji: "job_image env job_input = Inr img'"
        and rc: "run_calls env m0 img' (output_path env w) evs" by auto
      from run_calls_rembg [OF rc mem] have v: "rgb_version env img' = Inr i" .
      from rgb_version_mode [OF assms v] v some(1) ji show ?thesis by blast
    qed
    then show "img_mode env i = ''RGB''"
      and "\<exists>job_input img'. py_getitem_dict job ''input'' = Inr job_input \<and>
              job_image env job_input = Inr img' \<and> rgb_version env img' = Inr i"
      by simp_all
  next
    fix r w' m a k s
    assume run: "handler env job w = (r, w')"
      and a: "CallModel m a k s \<in> set (calls_between w w')"
    from run show "\<exists>job_input img'. py_getitem_dict job ''input'' = Inr job_input \<and>
              job_image env job_input = Inr img' \<and> rgb_image_array env img' a"
    proof (cases rule: handler_calls)
      case none
      with a show ?thesis by simp
    next
      case (some job_input lm evs)
      from a some(2) lm_count [OF some(3)] have mem: "CallModel m a k s \<in> set evs" by auto
      with some(4) obtain m0 img' where ji: "job_image env job_input = Inr img'"
        and rc: "run_calls env m0 img' (output_path env w) evs" by auto
      from run_calls_model [OF rc mem] obtain rgb arr where
        v: "rgb_version env img' = Inr rgb" "np_array env rgb = Inr arr" "a = astype_uint8 arr"
        by blast
      with rgb_version_mode [OF assms v(1)] have "rgb_image_array env img' a"
        unfolding rgb_image_array_def by blast
      with some(1) ji show ?thesis by blast
    qed
  qed
  have p_ok: "\<forall>pq w'. process env (Some img) w = (Inr pq, w') \<longrightarrow>
      (\<exists>rgb m a k. filter is_CallRembg (calls_between w w') = [CallRembg rgb] \<and>
         filter is_CallModel (calls_between w w') = [CallModel m a k 42] \<and>
         rgb_version env img = Inr rgb \<and> img_mode env rgb = ''RGB'' \<and>
         rgb_image_array env img a)"
  proof (intro allI impI)
    fix pq w'
    assume "process env (Some img) w = (Inr pq, w')"
    from process_Inr_calls [OF this] obtain lm m rgb a k gs where
      cb: "calls_between w w' =
             CallLoadModel # lm @ [CallRembg rgb, CallModel m a k 42,
                                   CallSavePly gs (output_path env w)]" and
      lm: "lm = [] \<or> model w = None \<and> lm = [CallInference (config_path env) False]" and
      cr: "collaborators_return env m img (output_path env w) (fs w) rgb a k gs (fs w')"
      by blast
    from full_calls_filter [OF cb lm] collaborators_return_rgb_array [OF assms cr]
    show "\<exists>rgb m a k. filter is_CallRembg (calls_between w w') = [CallRembg rgb] \<and>
         filter is_CallModel (calls_between w w') = [CallModel m a k 42] \<and>
         rgb_version env img = Inr rgb \<and> img_mode env rgb = ''RGB'' \<and>
         rgb_image_array env img a" by blast
  qed
  have h_ok: "\<forall>out w'. handler env job w = (Inr out, w') \<and> is_ply_output out \<longrightarrow>
      (\<exists>job_input img' rgb m a k. py_getitem_dict job ''input'' = Inr job_input \<and>
         job_image env job_input = Inr img' \<and>
         filter is_CallRembg (calls_between w w') = [CallRembg rgb] \<and>
         filter is_CallModel (calls_between w w') = [CallModel m a k 42] \<and>
         rgb_version env img' = Inr rgb \<and> img_mode env rgb = ''RGB'' \<and>
         rgb_image_array env img' a)"
  proof (intro allI impI)
    fix out w'
    assume "handler env job w = (Inr out, w') \<and> is_ply_output out"
    then have h: "handler env job w = (Inr out, w')" and o: "is_ply_output out" by simp_all
    from handler_ply_calls [OF h o] obtain job_input img' lm m rgb a k gs files' where
      ji: "py_getitem_dict job ''input'' = Inr job_input" "job_image env job_input = Inr img'" and
      cb: "calls_between w w' =
             CallLoadModel # lm @ [CallRembg rgb, CallModel m a k 42,
                                   CallSavePly gs (output_path env w)]" and
      lm: "lm = [] \<or> model w = None \<and> lm = [CallInference (config_path env) False]" and
      cr: "collaborators_return env m img' (output_path env w) (fs w) rgb a k gs files'"
      by blast
    from full_calls_filter [OF cb lm] collaborators_return_rgb_array [OF assms cr] ji
    show "\<exists>job_input img' rgb m a k. py_getitem_dict job ''input'' = Inr job_input \<and>
         job_image env job_input = Inr img' \<and>
         filter is_CallRembg (calls_between w w') = [CallRembg rgb] \<and>
         filter is_CallModel (calls_between w w') = [CallModel m a k 42] \<and>
         rgb_version env img' = Inr rgb \<and> img_mode env rgb = ''RGB'' \<and>
         rgb_image_array env img' a" by blast
  qed
  have p_go: "\<forall>m rgb a k gs files'.
      model_available env w m \<and>
      collaborators_return env m img (output_path env w) (fs w) rgb a k gs files' \<longrightarrow>
      rgb_version env img = Inr rgb \<and> img_mode env rgb = ''RGB'' \<and>
      rgb_image_array env img a \<and>
      (\<exists>w'. process env (Some img) w =
               (Inr (Some (output_path env w), Some (output_path env w)), w') \<and>
             filter is_CallRembg (calls_between w w') = [CallRembg rgb] \<and>
             filter is_CallModel (calls_between w w') = [CallModel m a k 42])"
  proof (intro allI impI)
    fix m rgb a k gs files'
    assume a: "model_available env w m \<and>
        collaborators_return env m img (output_path env w) (fs w) rgb a k gs files'"
    then have ma: "model_available env w m"
      and cr: "collaborators_return env m img (output_path env w) (fs w) rgb a k gs files'"
      by simp_all
    from process_progress [OF ma cr] obtain lm w' where
      p: "process env (Some img) w =
            (Inr (Some (output_path env w), Some (output_path env w)), w')" and
      cb: "calls_between w w' =
             CallLoadModel # lm @ [CallRembg rgb, CallModel m a k 42,
                                   CallSavePly gs (output_path env w)]" and
      lm: "lm = [] \<or> model w = None \<and> lm = [CallInference (config_path env) False]"
      by blast
    from full_calls_filter [OF cb lm] collaborators_return_rgb_array [OF assms cr] p
    show "rgb_version env img = Inr rgb \<and> img_mode env rgb = ''RGB'' \<and>
      rgb_image_array env img a \<and>
      (\<exists>w'. process env (Some img) w =
               (Inr (Some (output_path env w), Some (output_path env w)), w') \<and>
             filter is_CallRembg (calls_between w w') = [CallRembg rgb] \<and>
             filter is_CallModel (calls_between w w') = [CallModel m a k 42])" by blast
  qed
  have h_go: "\<forall>job_input img' m rgb a k gs files' content.
      py_getitem_dict job ''input'' = Inr job_input \<and>
      job_image env job_input = Inr img' \<and>
      model_available env w m \<and>
      collaborators_return env m img' (output_path env w) (fs w) rgb a k gs files' \<and>
      files' (output_path env w) = Some content \<longrightarrow>
      rgb_version env img' = Inr rgb \<and> img_mode env rgb = ''RGB'' \<and>
      rgb_image_array env img' a \<and>
      (\<exists>out w'. handler env job w = (Inr out, w') \<and> is_ply_output out \<and>
             filter is_CallRembg (calls_between w w') = [CallRembg rgb] \<and>
             filter is_CallModel (calls_between w w') = [CallModel m a k 42])"
  proof (intro allI impI)
    fix job_input img' m rgb a k gs files' content
    assume a: "py_getitem_dict job ''input'' = Inr job_input \<and>
        job_image env job_input = Inr img' \<and>
        model_available env w m \<and>
        collaborators_return env m img' (output_path env w) (fs w) rgb a k gs files' \<and>
        files' (output_path env w) = Some content"
    then have ji: "py_getitem_dict job ''input'' = Inr job_input"
      and im: "job_image env job_input = Inr img'"
      and ma: "model_available env w m"
      and cr: "collaborators_return env m img' (output_path env w) (fs w) rgb a k gs files'"
      and fc: "files' (output_path env w) = Some content"
      by simp_all
    from handler_progress [OF ji im ma cr fc] obtain lm w' where
      h: "handler env job w =
               (Inr [(''ply'', PStr (b64encode content)),
                     (''filename'', PStr (output_name env w))], w')" and
      cb: "calls_between w w' =
             CallLoadModel # lm @ [CallRembg rgb, CallModel m a k 42,
                                   CallSavePly gs (output_path env w)]" and
      lm: "lm = [] \<or> model w = None \<and> lm = [CallInference (config_path env) False]"
      by blast
    have "is_ply_output [(''ply'', PStr (b64encode content)),
                         (''filename'', PStr (output_name env w))]" by simp
    with full_calls_filter [OF cb lm] collaborators_return_rgb_array [OF assms cr] h
    show "rgb_version env img' = Inr rgb \<and> img_mode env rgb = ''RGB'' \<and>
      rgb_image_array env img' a \<and>
      (\<exists>out w'. handler env job w = (Inr out, w') \<and> is_ply_output out \<and>
             filter is_CallRembg (calls_between w w') = [CallRembg rgb] \<and>
             filter is_CallModel (calls_between w w') = [CallModel m a k 42])" by blast
  qed
  from p_all h_all p_ok h_ok p_go h_go show ?thesis by blast
qed

lemma test_env_convert: "convert_gives_rgb test_env"
  by (auto simp add: convert_gives_rgb_def test_env_def split: list.splits)

theorem rgb_before_any_use_witness:
  "convert_gives_rgb test_env \<and>
   img_mode test_env test_image = ''L'' \<and>
   rgb_version test_env test_image = Inr (''RGB'', [[77], [77], [77]]) \<and>
   img_mode test_env (''RGB'', [[77], [77], [77]]) = ''RGB'' \<and>
   rgb_image_array test_env test_image (NDArray [3, 1] [77, 77, 77]) \<and>
   (\<exists>w'. process test_env (Some test_image) test_world =
            (Inr (Some (output_path test_env test_world),
                  Some (output_path test_env test_world)), w') \<and>
          filter is_CallRembg (calls_between test_world w') =
            [CallRembg (''RGB'', [[77], [77], [77]])] \<and>
          filter is_CallModel (calls_between test_world w') =
            [CallModel 7 (NDArray [3, 1] [77, 77, 77]) (NDArray [1, 1] [True]) 42]) \<and>
   (\<exists>out w'. handler test_env test_job test_world = (Inr out, w') \<and> is_ply_output out \<and>
          filter is_CallRembg (calls_between test_world w') =
            [CallRembg (''RGB'', [[77], [77], [77]])] \<and>
          filter is_CallModel (calls_between test_world w') =
            [CallModel 7 (NDArray [3, 1] [77, 77, 77]) (NDArray [1, 1] [True]) 42])"
proof -
  note t = rgb_before_any_use [OF test_env_convert, of test_image test_world test_job]
  have l: "img_mode test_env test_image = ''L''"
    by (simp add: test_env_def test_image_def)
  from t test_model_available test_collaborators_return
  have 1: "rgb_version test_env test_image = Inr (''RGB'', [[77], [77], [77]]) \<and>
      img_mode test_env (''RGB'', [[77], [77], [77]]) = ''RGB'' \<and>
      rgb_image_array test_env test_image (NDArray [3, 1] [77, 77, 77]) \<and>
      (\<exists>w'. process test_env (Some test_image) test_world =
            (Inr (Some (output_path test_env test_world),
                  Some (output_path test_env test_world)), w') \<and>
          filter is_CallRembg (calls_between test_world w') =
            [CallRembg (''RGB'', [[77], [77], [77]])] \<and>
          filter is_CallModel (calls_between test_world w') =
            [CallModel 7 (NDArray [3, 1] [77, 77, 77]) (NDArray [1, 1] [True]) 42])"
    by blast
  from t test_job_input test_job_image test_model_available test_collaborators_return
    test_files_after
  have 2: "\<exists>out w'. handler test_env test_job test_world = (Inr out, w') \<and> is_ply_output out \<and>
          filter is_CallRembg (calls_between test_world w') =
            [CallRembg (''RGB'', [[77], [77], [77]])] \<and>
          filter is_CallModel (calls_between test_world w') =
            [CallModel 7 (NDArray [3, 1] [77, 77, 77]) (NDArray [1, 1] [True]) 42]"
    by blast
  from test_env_convert l 1 2 show ?thesis by blast
qed

end
